theory Spec2Isabelle
  imports Main "HOL-Library.Multiset"
begin

section \<open>The notebooks as data\<close>

text \<open>
  The repository holds two Jupyter notebooks and a text file of shell commands. A notebook
  is a JSON document whose \<^verbatim>\<open>cells\<close> array lists markdown cells and code cells in
  document order. A code cell records its \<^verbatim>\<open>execution_count\<close>, its \<^verbatim>\<open>outputs\<close> and
  its \<^verbatim>\<open>source\<close>; an output is either a \<^verbatim>\<open>stream\<close> (with the stream's name and its
  text lines) or an \<^verbatim>\<open>execute_result\<close> (with the execution count and the lines of its
  \<^verbatim>\<open>text/plain\<close> rendering). Strings are the UTF-8 bytes of the JSON strings; every
  \<^verbatim>\<open>source\<close> and \<^verbatim>\<open>text\<close> array keeps its line structure, each line ending with the
  newline the notebook stores.
\<close>

datatype cell_output =
    Stream string "string list"
  | ExecuteResult nat "string list"

datatype cell =
    Markdown "string list"
  | Code nat "cell_output list" "string list"

text \<open>
  Of the notebook's metadata the model keeps the name of the kernel (its
  \<^verbatim>\<open>kernelspec\<close>), which decides what a session starts with.
\<close>

record notebook =
  kernel :: string
  cells :: "cell list"

subsection \<open>The notebook \<^verbatim>\<open>01-Spark-SQL.ipynb\<close>\<close>

definition sql_md_1 :: cell where
  \<open>sql_md_1 = Markdown
    [''# Spark SQL\<newline>'',
     ''\<newline>'',
     ''Spark SQL is arguably one of the most important and powerful features in Spark. In a nutshell, with Spark SQL you can run SQL queries against views or tables organized into databases. You also can use system functions or define user functions and analyze query plans in order to optimize their workloads. This integrates directly into the DataFrame API, and as we saw in previous classes, you can choose to express some of your data manipulations in SQL and others in DataFrames and they will compile to the same underlying code.'']\<close>

definition sql_md_2 :: cell where
  \<open>sql_md_2 = Markdown
    [''## Big Data and SQL: Apache Hive\<newline>'',
     ''\<newline>'',
     (''Before Spark'' @ [CHR 0xE2, CHR 0x80, CHR 0x99] @ ''s rise, Hive was the de facto big data SQL access layer. Originally developed at Facebook, Hive became an incredibly popular tool across industry for performing SQL operations on big data. In many ways it helped propel Hadoop into different industries because analysts could run SQL queries. Although Spark began as a general processing engine with Resilient Distributed Datasets (RDDs), a large cohort of users now use Spark SQL.\<newline>''),
     ''\<newline>'',
     ''## Big Data and SQL: Spark SQL\<newline>'',
     ''\<newline>'',
     (''With the release of Spark 2.0, its authors created a superset of Hive'' @ [CHR 0xE2, CHR 0x80, CHR 0x99] @ ''s support, writing a native SQL parser that supports both ANSI-SQL as well as HiveQL queries. This, along with its unique interoperability with DataFrames, makes it a powerful tool for all sorts of companies. For example, in late 2016, Facebook announced that it had begun running Spark workloads and seeing large benefits in doing so. In the words of the blog post'' @ [CHR 0xE2, CHR 0x80, CHR 0x99] @ ''s authors:\<newline>''),
     ''\<newline>'',
     (''>We challenged Spark to replace a pipeline that decomposed to hundreds of Hive jobs into a single Spark job. Through a series of performance and reliability improvements, we were able to scale Spark to handle one of our entity ranking data processing use cases in production'' @ [CHR 0xE2, CHR 0x80, CHR 0xA6] @ ''. The Spark-based pipeline produced significant performance improvements (4.5'' @ [CHR 0xE2, CHR 0x80, CHR 0x93] @ ''6x CPU, 3'' @ [CHR 0xE2, CHR 0x80, CHR 0x93] @ ''4x resource reservation, and ~5x latency) compared with the old Hive-based pipeline, and it has been running in production for several months.\<newline>''),
     ''\<newline>'',
     (''The power of Spark SQL derives from several key facts: SQL analysts can now take advantage of Spark'' @ [CHR 0xE2, CHR 0x80, CHR 0x99] @ ''s computation abilities by plugging into the Thrift Server or Spark'' @ [CHR 0xE2, CHR 0x80, CHR 0x99] @ ''s SQL interface, whereas data engineers and scientists can use Spark SQL where appropriate in any data flow. This unifying API allows for data to be extracted with SQL, manipulated as a DataFrame, passed into one of Spark MLlibs'' @ [CHR 0xE2, CHR 0x80, CHR 0x99] @ '' large-scale machine learning algorithms, written out to another data source, and everything in between.\<newline>''),
     ''\<newline>'',
     (''**NOTE:** Spark SQL is intended to operate as an online analytic processing (OLAP) database, not an online transaction processing (OLTP) database. This means that it is not intended to perform extremely low-latency queries. Even though support for in-place modifications is sure to be something that comes up in the future, it'' @ [CHR 0xE2, CHR 0x80, CHR 0x99] @ ''s not something that is currently available.'')]\<close>

definition sql_in_1 :: cell where
  \<open>sql_in_1 = Code 1
    [Stream ''stdout''
      [''+-------+\<newline>'',
       ''|(1 + 1)|\<newline>'',
       ''+-------+\<newline>'',
       ''|      2|\<newline>'',
       ''+-------+\<newline>'',
       ''\<newline>'']]
    [''spark.sql("SELECT 1 + 1").show()'']\<close>

definition sql_md_3 :: cell where
  \<open>sql_md_3 = Markdown
    [(''As we have seen before, you can completely interoperate between SQL and DataFrames, as you see fit. For instance, you can create a DataFrame, manipulate it with SQL, and then manipulate it again as a DataFrame. It'' @ [CHR 0xE2, CHR 0x80, CHR 0x99] @ ''s a powerful abstraction that you will likely find yourself using quite a bit:'')]\<close>

definition sql_in_2 :: cell where
  \<open>sql_in_2 = Code 2
    []
    [''bucket = spark._jsc.hadoopConfiguration().get("fs.gs.system.bucket")\<newline>'',
     ''data = "gs://" + bucket + "/notebooks/data/"\<newline>'',
     ''\<newline>'',
     (''spark.read.json(data + "flight-data/json/2015-summary.json")'' @ [CHR 0x5C] @ ''\<newline>''),
     ''  .createOrReplaceTempView("flights_view") # DF => SQL'']\<close>

definition sql_in_3 :: cell where
  \<open>sql_in_3 = Code 3
    [ExecuteResult 3
      [''12'']]
    [''spark.sql("""\<newline>'',
     ''SELECT DEST_COUNTRY_NAME, sum(count)\<newline>'',
     ''FROM flights_view GROUP BY DEST_COUNTRY_NAME\<newline>'',
     (''""")'' @ [CHR 0x5C] @ ''\<newline>''),
     (''  .where("DEST_COUNTRY_NAME like 'S%'").where("`sum(count)` > 10")'' @ [CHR 0x5C] @ ''\<newline>''),
     ''  .count() # SQL => DF'']\<close>

definition sql_md_4 :: cell where
  \<open>sql_md_4 = Markdown
    [''## Creating Tables\<newline>'',
     ''\<newline>'',
     ''You can create tables from a variety of sources. For instance below we are creating a table from a SELECT statement:'']\<close>

definition sql_in_4 :: cell where
  \<open>sql_in_4 = Code 4
    [ExecuteResult 4
      [''DataFrame[]'']]
    [(''spark.sql('' @ [CHR 0x27, CHR 0x27, CHR 0x27] @ ''\<newline>''),
     ''CREATE TABLE IF NOT EXISTS flights_from_select USING parquet AS SELECT * FROM flights_view\<newline>'',
     ([CHR 0x27, CHR 0x27, CHR 0x27] @ '')'')]\<close>

definition sql_in_5 :: cell where
  \<open>sql_in_5 = Code 5
    [Stream ''stdout''
      [''+-----------------+-------------------+-----+\<newline>'',
       ''|DEST_COUNTRY_NAME|ORIGIN_COUNTRY_NAME|count|\<newline>'',
       ''+-----------------+-------------------+-----+\<newline>'',
       ''|    United States|            Romania|   15|\<newline>'',
       ''|    United States|            Croatia|    1|\<newline>'',
       ''|    United States|            Ireland|  344|\<newline>'',
       ''|            Egypt|      United States|   15|\<newline>'',
       ''|    United States|              India|   62|\<newline>'',
       ''+-----------------+-------------------+-----+\<newline>'',
       ''only showing top 5 rows\<newline>'',
       ''\<newline>'']]
    [''spark.sql('SELECT * FROM flights_from_select').show(5)'']\<close>

definition sql_in_6 :: cell where
  \<open>sql_in_6 = Code 6
    [Stream ''stdout''
      [''+-------------------+---------+-------+\<newline>'',
       ''|           col_name|data_type|comment|\<newline>'',
       ''+-------------------+---------+-------+\<newline>'',
       ''|  DEST_COUNTRY_NAME|   string|   null|\<newline>'',
       ''|ORIGIN_COUNTRY_NAME|   string|   null|\<newline>'',
       ''|              count|   bigint|   null|\<newline>'',
       ''+-------------------+---------+-------+\<newline>'',
       ''\<newline>'']]
    [(''spark.sql('' @ [CHR 0x27, CHR 0x27, CHR 0x27] @ ''\<newline>''),
     ''DESCRIBE TABLE flights_from_select\<newline>'',
     ([CHR 0x27, CHR 0x27, CHR 0x27] @ '').show()'')]\<close>

definition sql_md_5 :: cell where
  \<open>sql_md_5 = Markdown
    [''## Catalog\<newline>'',
     ''The highest level abstraction in Spark SQL is the Catalog. The Catalog is an abstraction for the storage of metadata about the data stored in your tables as well as other helpful things like databases, tables, functions, and views. The catalog is available in the `spark.catalog` package and contains a number of helpful functions for doing things like listing tables, databases, and functions.'']\<close>

definition sql_in_7 :: cell where
  \<open>sql_in_7 = Code 7
    []
    [''Cat = spark.catalog'']\<close>

definition sql_in_8 :: cell where
  \<open>sql_in_8 = Code 8
    [ExecuteResult 8
      [''[Table(name='flights_from_select', database='default', description=None, tableType='MANAGED', isTemporary=False),\<newline>'',
       '' Table(name='flights_view', database=None, description=None, tableType='TEMPORARY', isTemporary=True)]'']]
    [''Cat.listTables()'']\<close>

definition sql_in_9 :: cell where
  \<open>sql_in_9 = Code 9
    [Stream ''stdout''
      [''+--------+-------------------+-----------+\<newline>'',
       ''|database|tableName          |isTemporary|\<newline>'',
       ''+--------+-------------------+-----------+\<newline>'',
       ''|default |flights_from_select|false      |\<newline>'',
       ''|        |flights_view       |true       |\<newline>'',
       ''+--------+-------------------+-----------+\<newline>'',
       ''\<newline>'']]
    [''spark.sql('SHOW TABLES').show(5, False)'']\<close>

definition sql_in_10 :: cell where
  \<open>sql_in_10 = Code 10
    [ExecuteResult 10
      [''[Database(name='default', description='Default Hive database', locationUri='hdfs://bigcluster-m/user/hive/warehouse')]'']]
    [''Cat.listDatabases()'']\<close>

definition sql_in_11 :: cell where
  \<open>sql_in_11 = Code 11
    [Stream ''stdout''
      [''+------------+\<newline>'',
       ''|databaseName|\<newline>'',
       ''+------------+\<newline>'',
       ''|     default|\<newline>'',
       ''+------------+\<newline>'',
       ''\<newline>'']]
    [''spark.sql('SHOW DATABASES').show()'']\<close>

definition sql_in_12 :: cell where
  \<open>sql_in_12 = Code 12
    [ExecuteResult 12
      [''[Column(name='DEST_COUNTRY_NAME', description=None, dataType='string', nullable=True, isPartition=False, isBucket=False),\<newline>'',
       '' Column(name='ORIGIN_COUNTRY_NAME', description=None, dataType='string', nullable=True, isPartition=False, isBucket=False),\<newline>'',
       '' Column(name='count', description=None, dataType='bigint', nullable=True, isPartition=False, isBucket=False)]'']]
    [''Cat.listColumns('flights_from_select')'']\<close>

definition sql_in_13 :: cell where
  \<open>sql_in_13 = Code 13
    [ExecuteResult 13
      [''[Table(name='flights_from_select', database='default', description=None, tableType='MANAGED', isTemporary=False),\<newline>'',
       '' Table(name='flights_view', database=None, description=None, tableType='TEMPORARY', isTemporary=True)]'']]
    [''Cat.listTables()'']\<close>

definition sql_md_6 :: cell where
  \<open>sql_md_6 = Markdown
    [''### Caching Tables'']\<close>

definition sql_in_14 :: cell where
  \<open>sql_in_14 = Code 14
    [ExecuteResult 14
      [''DataFrame[]'']]
    [(''spark.sql('' @ [CHR 0x27, CHR 0x27, CHR 0x27] @ ''\<newline>''),
     ''CACHE TABLE flights_view\<newline>'',
     ([CHR 0x27, CHR 0x27, CHR 0x27] @ '')'')]\<close>

definition sql_in_15 :: cell where
  \<open>sql_in_15 = Code 15
    [ExecuteResult 15
      [''DataFrame[]'']]
    [(''spark.sql('' @ [CHR 0x27, CHR 0x27, CHR 0x27] @ ''\<newline>''),
     ''UNCACHE TABLE flights_view\<newline>'',
     ([CHR 0x27, CHR 0x27, CHR 0x27] @ '')'')]\<close>

definition sql_md_7 :: cell where
  \<open>sql_md_7 = Markdown
    [''## Explain'']\<close>

definition sql_in_16 :: cell where
  \<open>sql_in_16 = Code 16
    [Stream ''stdout''
      [''+-----------------------------------------------------------------------------------------------------------------+\<newline>'',
       ''|plan                                                                                                             |\<newline>'',
       ''+-----------------------------------------------------------------------------------------------------------------+\<newline>'',
       ''|== Physical Plan ==\<newline>'',
       ''org.apache.spark.sql.AnalysisException: Table or view not found: just_usa_view; line 2 pos 22|\<newline>'',
       ''+-----------------------------------------------------------------------------------------------------------------+\<newline>'',
       ''\<newline>'']]
    [(''spark.sql('' @ [CHR 0x27, CHR 0x27, CHR 0x27] @ ''\<newline>''),
     ''EXPLAIN SELECT * FROM just_usa_view\<newline>'',
     ([CHR 0x27, CHR 0x27, CHR 0x27] @ '').show(1, False)'')]\<close>

definition sql_md_8 :: cell where
  \<open>sql_md_8 = Markdown
    [''###  VIEWS - create/drop'']\<close>

definition sql_in_17 :: cell where
  \<open>sql_in_17 = Code 17
    [ExecuteResult 17
      [''DataFrame[]'']]
    [(''spark.sql('' @ [CHR 0x27, CHR 0x27, CHR 0x27] @ ''\<newline>''),
     ''CREATE VIEW just_usa_view AS\<newline>'',
     (''  SELECT * FROM flights_from_select WHERE dest_country_name = 'United States'' @ [CHR 0x27] @ ''\<newline>''),
     ([CHR 0x27, CHR 0x27, CHR 0x27] @ '')'')]\<close>

definition sql_in_18 :: cell where
  \<open>sql_in_18 = Code 18
    [ExecuteResult 18
      [''DataFrame[]'']]
    [(''spark.sql('' @ [CHR 0x27, CHR 0x27, CHR 0x27] @ ''\<newline>''),
     ''DROP VIEW IF EXISTS just_usa_view\<newline>'',
     ([CHR 0x27, CHR 0x27, CHR 0x27] @ '')'')]\<close>

definition sql_md_9 :: cell where
  \<open>sql_md_9 = Markdown
    [''### Drop tables'']\<close>

definition sql_in_19 :: cell where
  \<open>sql_in_19 = Code 19
    [ExecuteResult 19
      [''DataFrame[]'']]
    [''spark.sql('DROP TABLE flights_from_select')'']\<close>

definition sql_in_20 :: cell where
  \<open>sql_in_20 = Code 20
    [ExecuteResult 20
      [''DataFrame[]'']]
    [''spark.sql('DROP TABLE IF EXISTS flights_from_select')'']\<close>

definition sql_md_10 :: cell where
  \<open>sql_md_10 = Markdown
    [''## `spark-sql`\<newline>'',
     ''\<newline>'',
     ''Go to the command line tool and check for the list of databases and tables. For instance:\<newline>'',
     ''\<newline>'',
     ''`SHOW TABLES`'']\<close>

definition spark_sql_notebook :: notebook where
  \<open>spark_sql_notebook =
   \<lparr>kernel = ''pyspark'', cells =
   [sql_md_1, sql_md_2, sql_in_1, sql_md_3, sql_in_2, sql_in_3, sql_md_4, sql_in_4, sql_in_5,
    sql_in_6, sql_md_5, sql_in_7, sql_in_8, sql_in_9, sql_in_10, sql_in_11, sql_in_12,
    sql_in_13, sql_md_6, sql_in_14, sql_in_15, sql_md_7, sql_in_16, sql_md_8, sql_in_17,
    sql_in_18, sql_md_9, sql_in_19, sql_in_20, sql_md_10]\<rparr>\<close>

subsection \<open>The joins notebook\<close>

definition joins_md_1 :: cell where
  \<open>joins_md_1 = Markdown
    [''# Joins\<newline>'',
     ''\<newline>'',
     (''Spark applications can bring together a large number of different datasets. For this reason, joins are an essential part of nearly all Spark workloads. Spark'' @ [CHR 0xE2, CHR 0x80, CHR 0x99] @ ''s ability to talk to different data means that you gain the ability to tap into a variety of data sources across your company. This notebook covers not just what types of joins exist in Spark and how to use them, but also some of the basic internals so that you can think about how Spark actually goes about executing the join on the cluster. This basic knowledge can help you avoid running out of memory and tackle problems that you could not solve before.\<newline>''),
     ''\<newline>'',
     ''## Join Expressions\<newline>'',
     ''\<newline>'',
     ''A join brings together two sets of data, the left and the right, by comparing the value of one or more keys of the left and right and evaluating the result of a join expression that determines whether Spark should bring together the left set of data with the right set of data. The most common join expression, an equi-join, compares whether the specified keys in your left and right datasets are equal. If they are equal, Spark will combine the left and right datasets. The opposite is true for keys that do not match; Spark discards the rows that do not have matching keys. Spark also allows for much more sophsticated join policies in addition to equi-joins. We can even use complex types and perform something like checking whether a key exists within an array when you perform a join.\<newline>'',
     ''\<newline>'',
     ''## Join Types\<newline>'',
     ''\<newline>'',
     ''Whereas the join expression determines whether two rows should join, the join type determines what should be in the result set. There are a variety of different join types available in Spark for you to use:\<newline>'',
     ''\<newline>'',
     ''* Inner joins (keep rows with keys that exist in the left and right datasets)\<newline>'',
     ''* Outer joins (keep rows with keys in either the left or right datasets)\<newline>'',
     ''* Left outer joins (keep rows with keys in the left dataset)\<newline>'',
     ''* Right outer joins (keep rows with keys in the right dataset)\<newline>'',
     ''* Left semi joins (keep the rows in the left, and only the left, dataset where the key appears in the right dataset)\<newline>'',
     ''* Left anti joins (keep the rows in the left, and only the left, dataset where they do not appear in the right dataset)\<newline>'',
     ''* Natural joins (perform a join by implicitly matching the columns between the two datasets with the same names)\<newline>'',
     ''* Cross (or Cartesian) joins (match every row in the left dataset with every row in the right dataset)\<newline>'',
     ''\<newline>'',
     (''If you have ever interacted with a relational database system, or even an Excel spreadsheet, the concept of joining different datasets together should not be too abstract. Let'' @ [CHR 0xE2, CHR 0x80, CHR 0x99] @ ''s move on to showing examples of each join type. This will make it easy to understand exactly how you can apply these to your own problems. To do this, let'' @ [CHR 0xE2, CHR 0x80, CHR 0x99] @ ''s create some simple datasets that we can use in our examples:'')]\<close>

definition joins_in_1 :: cell where
  \<open>joins_in_1 = Code 1
    [Stream ''stdout''
      [''+---+----------------+----------------+---------------+\<newline>'',
       ''| id|            name|graduate_program|   spark_status|\<newline>'',
       ''+---+----------------+----------------+---------------+\<newline>'',
       ''|  0|   Bill Chambers|               0|          [100]|\<newline>'',
       ''|  1|   Matei Zaharia|               1|[500, 250, 100]|\<newline>'',
       ''|  2|Michael Armbrust|               1|     [250, 100]|\<newline>'',
       ''+---+----------------+----------------+---------------+\<newline>'',
       ''\<newline>'',
       ''+---+-------+--------------------+-----------+\<newline>'',
       ''| id| degree|          department|     school|\<newline>'',
       ''+---+-------+--------------------+-----------+\<newline>'',
       ''|  0|Masters|School of Informa...|UC Berkeley|\<newline>'',
       ''|  2|Masters|                EECS|UC Berkeley|\<newline>'',
       ''|  1|  Ph.D.|                EECS|UC Berkeley|\<newline>'',
       ''+---+-------+--------------------+-----------+\<newline>'',
       ''\<newline>'']]
    [''person = spark.createDataFrame([\<newline>'',
     ''    (0, "Bill Chambers", 0, [100]),\<newline>'',
     ''    (1, "Matei Zaharia", 1, [500, 250, 100]),\<newline>'',
     (''    (2, "Michael Armbrust", 1, [250, 100])])'' @ [CHR 0x5C] @ ''\<newline>''),
     ''  .toDF("id", "name", "graduate_program", "spark_status")\<newline>'',
     ''\<newline>'',
     ''graduateProgram = spark.createDataFrame([\<newline>'',
     ''    (0, "Masters", "School of Information", "UC Berkeley"),\<newline>'',
     ''    (2, "Masters", "EECS", "UC Berkeley"),\<newline>'',
     (''    (1, "Ph.D.", "EECS", "UC Berkeley")])'' @ [CHR 0x5C] @ ''\<newline>''),
     ''  .toDF("id", "degree", "department", "school")\<newline>'',
     ''\<newline>'',
     ''person.show()\<newline>'',
     ''graduateProgram.show()'']\<close>

definition joins_md_2 :: cell where
  \<open>joins_md_2 = Markdown
    [(''Next, let'' @ [CHR 0xE2, CHR 0x80, CHR 0x99] @ ''s register these as tables so that we use them:'')]\<close>

definition joins_in_2 :: cell where
  \<open>joins_in_2 = Code 2
    []
    [''person.createOrReplaceTempView("person")\<newline>'',
     ''graduateProgram.createOrReplaceTempView("graduateProgram")'']\<close>

definition joins_md_3 :: cell where
  \<open>joins_md_3 = Markdown
    [''## Inner Joins\<newline>'',
     ''\<newline>'',
     ''Inner joins evaluate the keys in both of the DataFrames or tables and include (and join together) only the rows that evaluate to true. In the following example, we join the graduateProgram DataFrame with the person DataFrame to create a new DataFrame:'']\<close>

definition joins_in_3 :: cell where
  \<open>joins_in_3 = Code 3
    []
    [''joinExpression = person["graduate_program"] == graduateProgram['id']'']\<close>

definition joins_md_4 :: cell where
  \<open>joins_md_4 = Markdown
    [''Inner joins are the default join, so we just need to specify our left DataFrame and join the right in the JOIN expression:'']\<close>

definition joins_in_4 :: cell where
  \<open>joins_in_4 = Code 4
    [Stream ''stdout''
      [''+---+----------------+----------------+---------------+---+-------+--------------------+-----------+\<newline>'',
       ''| id|            name|graduate_program|   spark_status| id| degree|          department|     school|\<newline>'',
       ''+---+----------------+----------------+---------------+---+-------+--------------------+-----------+\<newline>'',
       ''|  0|   Bill Chambers|               0|          [100]|  0|Masters|School of Informa...|UC Berkeley|\<newline>'',
       ''|  1|   Matei Zaharia|               1|[500, 250, 100]|  1|  Ph.D.|                EECS|UC Berkeley|\<newline>'',
       ''|  2|Michael Armbrust|               1|     [250, 100]|  1|  Ph.D.|                EECS|UC Berkeley|\<newline>'',
       ''+---+----------------+----------------+---------------+---+-------+--------------------+-----------+\<newline>'',
       ''\<newline>'']]
    [''person.join(graduateProgram, joinExpression).show()'']\<close>

definition joins_md_5 :: cell where
  \<open>joins_md_5 = Markdown
    [''We can also specify this explicitly by passing in a third parameter, the `how`:'']\<close>

definition joins_in_5 :: cell where
  \<open>joins_in_5 = Code 5
    [Stream ''stdout''
      [''+---+----------------+----------------+---------------+---+-------+--------------------+-----------+\<newline>'',
       ''| id|            name|graduate_program|   spark_status| id| degree|          department|     school|\<newline>'',
       ''+---+----------------+----------------+---------------+---+-------+--------------------+-----------+\<newline>'',
       ''|  0|   Bill Chambers|               0|          [100]|  0|Masters|School of Informa...|UC Berkeley|\<newline>'',
       ''|  1|   Matei Zaharia|               1|[500, 250, 100]|  1|  Ph.D.|                EECS|UC Berkeley|\<newline>'',
       ''|  2|Michael Armbrust|               1|     [250, 100]|  1|  Ph.D.|                EECS|UC Berkeley|\<newline>'',
       ''+---+----------------+----------------+---------------+---+-------+--------------------+-----------+\<newline>'',
       ''\<newline>'']]
    [''person.join(graduateProgram, \<newline>'',
     ''            on = person["graduate_program"] == graduateProgram['id'],\<newline>'',
     ''            how = "inner").show()'']\<close>

definition joins_md_6 :: cell where
  \<open>joins_md_6 = Markdown
    [''General join format:\<newline>'',
     ''\<newline>'',
     ''```python\<newline>'',
     ''leftDF.join(rightDF, \<newline>'',
     ''            on = leftDF["abc"] == rightDF["xyz"], \<newline>'',
     ''            how = "joinType")\<newline>'',
     ''```\<newline>'',
     ''\<newline>'',
     ''In SQL\<newline>'',
     ''\<newline>'',
     ''```sql\<newline>'',
     ''SELECT * FROM person INNER \<newline>'',
     ''JOIN graduateProgram\<newline>'',
     ''ON person.graduate_program = graduateProgram.id\<newline>'',
     ''```\<newline>'',
     ''\<newline>'',
     ''## Outer Joins\<newline>'',
     ''\<newline>'',
     ''Outer joins evaluate the keys in both of the DataFrames or tables and includes (and joins together) the rows that evaluate to true or false. If there is no equivalent row in either the left or right DataFrame, Spark will insert null:'']\<close>

definition joins_in_6 :: cell where
  \<open>joins_in_6 = Code 6
    [Stream ''stdout''
      [''+----+----------------+----------------+---------------+---+-------+--------------------+-----------+\<newline>'',
       ''|  id|            name|graduate_program|   spark_status| id| degree|          department|     school|\<newline>'',
       ''+----+----------------+----------------+---------------+---+-------+--------------------+-----------+\<newline>'',
       ''|   0|   Bill Chambers|               0|          [100]|  0|Masters|School of Informa...|UC Berkeley|\<newline>'',
       ''|   1|   Matei Zaharia|               1|[500, 250, 100]|  1|  Ph.D.|                EECS|UC Berkeley|\<newline>'',
       ''|   2|Michael Armbrust|               1|     [250, 100]|  1|  Ph.D.|                EECS|UC Berkeley|\<newline>'',
       ''|null|            null|            null|           null|  2|Masters|                EECS|UC Berkeley|\<newline>'',
       ''+----+----------------+----------------+---------------+---+-------+--------------------+-----------+\<newline>'',
       ''\<newline>'']]
    [''person.join(graduateProgram, \<newline>'',
     ''            on = person["graduate_program"] == graduateProgram['id'],\<newline>'',
     ''            how = "outer").show()'']\<close>

definition joins_md_7 :: cell where
  \<open>joins_md_7 = Markdown
    [''In SQL\<newline>'',
     ''```sql\<newline>'',
     ''SELECT * FROM person \<newline>'',
     ''FULL OUTER JOIN graduateProgram\<newline>'',
     ''ON graduate_program = graduateProgram.id\<newline>'',
     ''```\<newline>'',
     ''\<newline>'',
     ''## Left Outer Joins\<newline>'',
     ''\<newline>'',
     ''Left outer joins evaluate the keys in both of the DataFrames or tables and includes all rows from the left DataFrame as well as any rows in the right DataFrame that have a match in the left DataFrame. If there is no equivalent row in the right DataFrame, Spark will insert null:'']\<close>

definition joins_in_7 :: cell where
  \<open>joins_in_7 = Code 7
    [Stream ''stdout''
      [''+---+-------+--------------------+-----------+----+----------------+----------------+---------------+\<newline>'',
       ''| id| degree|          department|     school|  id|            name|graduate_program|   spark_status|\<newline>'',
       ''+---+-------+--------------------+-----------+----+----------------+----------------+---------------+\<newline>'',
       ''|  0|Masters|School of Informa...|UC Berkeley|   0|   Bill Chambers|               0|          [100]|\<newline>'',
       ''|  1|  Ph.D.|                EECS|UC Berkeley|   1|   Matei Zaharia|               1|[500, 250, 100]|\<newline>'',
       ''|  1|  Ph.D.|                EECS|UC Berkeley|   2|Michael Armbrust|               1|     [250, 100]|\<newline>'',
       ''|  2|Masters|                EECS|UC Berkeley|null|            null|            null|           null|\<newline>'',
       ''+---+-------+--------------------+-----------+----+----------------+----------------+---------------+\<newline>'',
       ''\<newline>'']]
    [''graduateProgram.join(person, \<newline>'',
     ''                     on = person["graduate_program"] == graduateProgram['id'],\<newline>'',
     ''                     how = "left_outer").show()'']\<close>

definition joins_md_8 :: cell where
  \<open>joins_md_8 = Markdown
    [''In SQL\<newline>'',
     ''```sql\<newline>'',
     ''SELECT * FROM graduateProgram \<newline>'',
     ''LEFT OUTER JOIN person\<newline>'',
     ''ON person.graduate_program = graduateProgram.id\<newline>'',
     ''```\<newline>'',
     ''\<newline>'',
     ''## Right Outer Joins\<newline>'',
     ''\<newline>'',
     ''Right outer joins are exactly the same as left outer joins if we replaced the order of left and right tables. It will result in a different ordering of the columns:'']\<close>

definition joins_in_8 :: cell where
  \<open>joins_in_8 = Code 8
    [Stream ''stdout''
      [''+----+----------------+----------------+---------------+---+-------+--------------------+-----------+\<newline>'',
       ''|  id|            name|graduate_program|   spark_status| id| degree|          department|     school|\<newline>'',
       ''+----+----------------+----------------+---------------+---+-------+--------------------+-----------+\<newline>'',
       ''|   0|   Bill Chambers|               0|          [100]|  0|Masters|School of Informa...|UC Berkeley|\<newline>'',
       ''|   1|   Matei Zaharia|               1|[500, 250, 100]|  1|  Ph.D.|                EECS|UC Berkeley|\<newline>'',
       ''|   2|Michael Armbrust|               1|     [250, 100]|  1|  Ph.D.|                EECS|UC Berkeley|\<newline>'',
       ''|null|            null|            null|           null|  2|Masters|                EECS|UC Berkeley|\<newline>'',
       ''+----+----------------+----------------+---------------+---+-------+--------------------+-----------+\<newline>'',
       ''\<newline>'']]
    [''person.join(graduateProgram, \<newline>'',
     ''            on = person["graduate_program"] == graduateProgram['id'],\<newline>'',
     ''            how = "right_outer").show()'']\<close>

definition joins_md_9 :: cell where
  \<open>joins_md_9 = Markdown
    [''In SQL\<newline>'',
     ''```sql\<newline>'',
     ''SELECT * FROM person \<newline>'',
     ''RIGHT OUTER JOIN graduateProgram\<newline>'',
     ''ON person.graduate_program = graduateProgram.id\<newline>'',
     ''```\<newline>'',
     ''\<newline>'',
     ''## Left Semi Joins\<newline>'',
     ''\<newline>'',
     ''Semi joins are a bit of a departure from the other joins. They do not actually include any values from the right DataFrame. They only compare values to see if the value exists in the second DataFrame. If the value does exist, those rows will be kept in the result, even if there are duplicate keys in the left DataFrame. **Think of left semi joins as filters on a DataFrame**, as opposed to the function of a conventional join:'']\<close>

definition joins_in_9 :: cell where
  \<open>joins_in_9 = Code 9
    [Stream ''stdout''
      [''+---+-------+--------------------+-----------+\<newline>'',
       ''| id| degree|          department|     school|\<newline>'',
       ''+---+-------+--------------------+-----------+\<newline>'',
       ''|  0|Masters|School of Informa...|UC Berkeley|\<newline>'',
       ''|  1|  Ph.D.|                EECS|UC Berkeley|\<newline>'',
       ''+---+-------+--------------------+-----------+\<newline>'',
       ''\<newline>'']]
    [''graduateProgram.join(person, \<newline>'',
     ''                     on = person["graduate_program"] == graduateProgram['id'],\<newline>'',
     ''                     how = "left_semi").show()'']\<close>

definition joins_md_10 :: cell where
  \<open>joins_md_10 = Markdown
    [''In SQL\<newline>'',
     ''```sql\<newline>'',
     ''SELECT * FROM gradProgram2 \<newline>'',
     ''LEFT SEMI JOIN person\<newline>'',
     ''ON gradProgram2.id = person.graduate_program\<newline>'',
     ''```\<newline>'',
     ''\<newline>'',
     ''## Left Anti Joins\<newline>'',
     ''\<newline>'',
     ''Left anti joins are the opposite of left semi joins. Like left semi joins, they do not actually include any values from the right DataFrame. They only compare values to see if the value exists in the second DataFrame. However, rather than keeping the values that exist in the second DataFrame, they keep only the values that do not have a corresponding key in the second DataFrame. Think of anti joins as a NOT IN SQL-style filter:'']\<close>

definition joins_in_10 :: cell where
  \<open>joins_in_10 = Code 10
    [Stream ''stdout''
      [''+---+-------+----------+-----------+\<newline>'',
       ''| id| degree|department|     school|\<newline>'',
       ''+---+-------+----------+-----------+\<newline>'',
       ''|  2|Masters|      EECS|UC Berkeley|\<newline>'',
       ''+---+-------+----------+-----------+\<newline>'',
       ''\<newline>'']]
    [''graduateProgram.join(person, \<newline>'',
     ''                     on = person["graduate_program"] == graduateProgram['id'],\<newline>'',
     ''                     how = "left_anti").show()'']\<close>

definition joins_md_11 :: cell where
  \<open>joins_md_11 = Markdown
    [''In SQL\<newline>'',
     ''```sql\<newline>'',
     ''SELECT * FROM graduateProgram \<newline>'',
     ''LEFT ANTI JOIN person\<newline>'',
     ''ON graduateProgram.id = person.graduate_program\<newline>'',
     ''```\<newline>'',
     ''\<newline>'',
     ''## Cross (Cartesian) Joins\<newline>'',
     ''\<newline>'',
     ''The last of our joins are cross-joins or cartesian products. Cross-joins in simplest terms are inner joins that do not specify a predicate. Cross joins will join every single row in the left DataFrame to ever single row in the right DataFrame. This will cause an absolute explosion in the number of rows contained in the resulting DataFrame. If you have 1,000 rows in each DataFrame, the cross-join of these will result in 1,000,000 (1,000 x 1,000) rows. For this reason, you must very explicitly state that you want a cross-join by using the cross join keyword:'']\<close>

definition joins_in_11 :: cell where
  \<open>joins_in_11 = Code 11
    [Stream ''stdout''
      [''+---+----------------+----------------+---------------+---+-------+--------------------+-----------+\<newline>'',
       ''| id|            name|graduate_program|   spark_status| id| degree|          department|     school|\<newline>'',
       ''+---+----------------+----------------+---------------+---+-------+--------------------+-----------+\<newline>'',
       ''|  0|   Bill Chambers|               0|          [100]|  0|Masters|School of Informa...|UC Berkeley|\<newline>'',
       ''|  0|   Bill Chambers|               0|          [100]|  2|Masters|                EECS|UC Berkeley|\<newline>'',
       ''|  0|   Bill Chambers|               0|          [100]|  1|  Ph.D.|                EECS|UC Berkeley|\<newline>'',
       ''|  1|   Matei Zaharia|               1|[500, 250, 100]|  0|Masters|School of Informa...|UC Berkeley|\<newline>'',
       ''|  2|Michael Armbrust|               1|     [250, 100]|  0|Masters|School of Informa...|UC Berkeley|\<newline>'',
       ''|  1|   Matei Zaharia|               1|[500, 250, 100]|  2|Masters|                EECS|UC Berkeley|\<newline>'',
       ''|  1|   Matei Zaharia|               1|[500, 250, 100]|  1|  Ph.D.|                EECS|UC Berkeley|\<newline>'',
       ''|  2|Michael Armbrust|               1|     [250, 100]|  2|Masters|                EECS|UC Berkeley|\<newline>'',
       ''|  2|Michael Armbrust|               1|     [250, 100]|  1|  Ph.D.|                EECS|UC Berkeley|\<newline>'',
       ''+---+----------------+----------------+---------------+---+-------+--------------------+-----------+\<newline>'',
       ''\<newline>'']]
    [''person.crossJoin(graduateProgram).show()'']\<close>

definition joins_md_12 :: cell where
  \<open>joins_md_12 = Markdown
    [''# Challenges When Using Joins\<newline>'',
     ''\<newline>'',
     ''When performing joins, there are some specific challenges and some common questions that arise.\<newline>'',
     ''\<newline>'',
     ''## Handling Duplicate Column Names\<newline>'',
     ''\<newline>'',
     (''One of the tricky things that come up in joins is dealing with duplicate column names in your results DataFrame. In a DataFrame, each column has a unique ID within Spark'' @ [CHR 0xE2, CHR 0x80, CHR 0x99] @ ''s SQL Engine, Catalyst. This unique ID is purely internal and not something that you can directly reference. This makes it quite difficult to refer to a specific column when you have a DataFrame with duplicate column names.\<newline>''),
     ''\<newline>'',
     ''This can occur in two distinct situations:\<newline>'',
     ''\<newline>'',
     ''* The join expression that you specify does not remove one key from one of the input DataFrames and the keys have the same column name\<newline>'',
     ''\<newline>'',
     ''* Two columns on which you are not performing the join have the same name\<newline>'',
     ''\<newline>'',
     (''Let'' @ [CHR 0xE2, CHR 0x80, CHR 0x99] @ ''s create a problem dataset that we can use to illustrate these problems:'')]\<close>

definition joins_in_12 :: cell where
  \<open>joins_in_12 = Code 12
    [Stream ''stdout''
      [''+---+----------------+----------------+---------------+----------------+-------+--------------------+-----------+\<newline>'',
       ''| id|            name|graduate_program|   spark_status|graduate_program| degree|          department|     school|\<newline>'',
       ''+---+----------------+----------------+---------------+----------------+-------+--------------------+-----------+\<newline>'',
       ''|  0|   Bill Chambers|               0|          [100]|               0|Masters|School of Informa...|UC Berkeley|\<newline>'',
       ''|  1|   Matei Zaharia|               1|[500, 250, 100]|               1|  Ph.D.|                EECS|UC Berkeley|\<newline>'',
       ''|  2|Michael Armbrust|               1|     [250, 100]|               1|  Ph.D.|                EECS|UC Berkeley|\<newline>'',
       ''+---+----------------+----------------+---------------+----------------+-------+--------------------+-----------+\<newline>'',
       ''\<newline>'']]
    [''gradProgramDupe = graduateProgram.withColumnRenamed("id", "graduate_program")\<newline>'',
     ''\<newline>'',
     ''df = person.join(gradProgramDupe,\<newline>'',
     ''                 on = person["graduate_program"] == gradProgramDupe["graduate_program"],\<newline>'',
     ''                 how = "inner")\<newline>'',
     ''df.show()'']\<close>

definition joins_md_13 :: cell where
  \<open>joins_md_13 = Markdown
    [''Note that there are now two graduate_program columns, even though we joined on that key:\<newline>'',
     ''\<newline>'',
     ''Now if we run the following command we will get an error because of the ambiguous column name:\<newline>'',
     ''\<newline>'',
     ''```python\<newline>'',
     ''df.select("graduate_program").show()\<newline>'',
     ''```\<newline>'',
     ''\<newline>'',
     ''Error:\<newline>'',
     ''```\<newline>'',
     ''AnalysisException: "Reference 'graduate_program' is ambiguous, could be: graduate_program, graduate_program.;\<newline>'',
     ''```\<newline>'',
     ''\<newline>'',
     ''### APPROACH 1: DIFFERENT JOIN EXPRESSION\<newline>'',
     ''\<newline>'',
     ''When you have two keys that have the same name, probably the easiest fix is to change the join expression from a Boolean expression to a string or sequence. This automatically removes one of the columns for you during the join:'']\<close>

definition joins_in_13 :: cell where
  \<open>joins_in_13 = Code 13
    [Stream ''stdout''
      [''+----------------+---+----------------+---------------+-------+--------------------+-----------+\<newline>'',
       ''|graduate_program| id|            name|   spark_status| degree|          department|     school|\<newline>'',
       ''+----------------+---+----------------+---------------+-------+--------------------+-----------+\<newline>'',
       ''|               0|  0|   Bill Chambers|          [100]|Masters|School of Informa...|UC Berkeley|\<newline>'',
       ''|               1|  1|   Matei Zaharia|[500, 250, 100]|  Ph.D.|                EECS|UC Berkeley|\<newline>'',
       ''|               1|  2|Michael Armbrust|     [250, 100]|  Ph.D.|                EECS|UC Berkeley|\<newline>'',
       ''+----------------+---+----------------+---------------+-------+--------------------+-----------+\<newline>'',
       ''\<newline>'']]
    [''person.join(gradProgramDupe,"graduate_program").show()'']\<close>

definition joins_md_14 :: cell where
  \<open>joins_md_14 = Markdown
    [''### APPROACH 2: DROPPING THE COLUMN AFTER THE JOIN\<newline>'',
     ''\<newline>'',
     ''Another approach is to drop the offending column after the join. When doing this, we need to refer to the column via the original source DataFrame. We can do this if the join uses the same key names or if the source DataFrames have columns that simply have the same name:'']\<close>

definition joins_in_14 :: cell where
  \<open>joins_in_14 = Code 14
    [Stream ''stdout''
      [''+---+----------------+---------------+----------------+-------+--------------------+-----------+\<newline>'',
       ''| id|            name|   spark_status|graduate_program| degree|          department|     school|\<newline>'',
       ''+---+----------------+---------------+----------------+-------+--------------------+-----------+\<newline>'',
       ''|  0|   Bill Chambers|          [100]|               0|Masters|School of Informa...|UC Berkeley|\<newline>'',
       ''|  1|   Matei Zaharia|[500, 250, 100]|               1|  Ph.D.|                EECS|UC Berkeley|\<newline>'',
       ''|  2|Michael Armbrust|     [250, 100]|               1|  Ph.D.|                EECS|UC Berkeley|\<newline>'',
       ''+---+----------------+---------------+----------------+-------+--------------------+-----------+\<newline>'',
       ''\<newline>'']]
    [''person.join(gradProgramDupe, \<newline>'',
     (''           person["graduate_program"] == gradProgramDupe["graduate_program"])'' @ [CHR 0x5C] @ ''\<newline>''),
     ''  .drop(person["graduate_program"]).show()'']\<close>

definition joins_md_15 :: cell where
  \<open>joins_md_15 = Markdown
    [''### APPROACH 3: RENAMING A COLUMN BEFORE THE JOIN\<newline>'',
     ''\<newline>'',
     ''We can avoid this issue altogether if we rename one of our columns before the join:'']\<close>

definition joins_in_15 :: cell where
  \<open>joins_in_15 = Code 15
    [Stream ''stdout''
      [''+---+----------------+----------------+---------------+-------+-------+--------------------+-----------+\<newline>'',
       ''| id|            name|graduate_program|   spark_status|grad_id| degree|          department|     school|\<newline>'',
       ''+---+----------------+----------------+---------------+-------+-------+--------------------+-----------+\<newline>'',
       ''|  0|   Bill Chambers|               0|          [100]|      0|Masters|School of Informa...|UC Berkeley|\<newline>'',
       ''|  1|   Matei Zaharia|               1|[500, 250, 100]|      1|  Ph.D.|                EECS|UC Berkeley|\<newline>'',
       ''|  2|Michael Armbrust|               1|     [250, 100]|      1|  Ph.D.|                EECS|UC Berkeley|\<newline>'',
       ''+---+----------------+----------------+---------------+-------+-------+--------------------+-----------+\<newline>'',
       ''\<newline>'']]
    [''gradProgram3 = graduateProgram.withColumnRenamed("id", "grad_id")\<newline>'',
     ''\<newline>'',
     ''person.join(gradProgram3, \<newline>'',
     ''           person["graduate_program"] == gradProgram3["grad_id"]).show()'']\<close>

definition joins_md_16 :: cell where
  \<open>joins_md_16 = Markdown
    [''# How Spark Performs Joins\<newline>'',
     ''\<newline>'',
     ''To understand how Spark performs joins, you need to understand the two core resources at play: the node-to-node communication strategy and per node computation strategy. These internals are likely irrelevant to your business problem. However, comprehending how Spark performs joins can mean the difference between a job that completes quickly and one that never completes at all.\<newline>'',
     ''\<newline>'',
     ''## Communication Strategies\<newline>'',
     ''\<newline>'',
     (''Spark approaches cluster communication in two different ways during joins. It either incurs a *sort-merge join*, which results in an all-to-all communication or a *broadcast join*. The core foundation of our simplified view of joins is that in Spark you will have either a big table or a small table. Although this is obviously a spectrum (and things do happen differently if you have a '' @ [CHR 0xE2, CHR 0x80, CHR 0x9C] @ ''medium-sized table'' @ [CHR 0xE2, CHR 0x80, CHR 0x9D] @ ''), it can help to be binary about the distinction for the sake of this explanation.\<newline>''),
     ''\<newline>'',
     (''### BIG TABLE'' @ [CHR 0xE2, CHR 0x80, CHR 0x93] @ ''TO'' @ [CHR 0xE2, CHR 0x80, CHR 0x93] @ ''BIG TABLE\<newline>''),
     ''\<newline>'',
     ''When you join a big table to another big table, you end up with a sort-merge join. This behavior is standard as Spark 2.3.0 and as of the writing of this notebook. Prior to this version of Spark suffle hash join was the default, but it has changed since then. The implementation of sort-merge Join in Spark is similar to any other SQL engine, except the fact that it happens over partitions because of the distributed nature of data. \<newline>'',
     ''\<newline>'',
     ''The illustration below represents how the data moves around different executors to make the join possible. If the DataFrames sharing the same partitioner are materialized by the same action, they will end up being co-located.\<newline>'',
     ''\<newline>'',
     ''<img src="https://github.com/soltaniehha/Big-Data-Analytics-for-Business/blob/master/figs/06-03-Joining-two-big-tables.png?raw=true" width="700" align="center"/>'']\<close>

definition joins_md_17 :: cell where
  \<open>joins_md_17 = Markdown
    [''In a sort-merge join, every node talks to every other node and they share data according to which node has a certain key or set of keys (on which you are joining). These joins are expensive because the network can become congested with traffic, especially if your DataFrames are not co-partitioned.\<newline>'',
     ''\<newline>'',
     ''This join describes taking a big table of data and joining it to another big table of data. An example of this might be a company that receives billions of messages every day from the Internet of Things, and needs to identify the day-over-day changes that have occurred. The way to do this is by joining on *deviceId*, *messageType*, and *date* in one column, and *date - 1 day* in the other column.\<newline>'',
     ''\<newline>'',
     ''In the figure above, DataFrame 1 and DataFrame 2 are both large DataFrames. This means that all worker nodes (and potentially every partition) will need to communicate with one another during the entire join process (with no intelligent partitioning of data).\<newline>'',
     ''\<newline>'',
     (''### BIG TABLE'' @ [CHR 0xE2, CHR 0x80, CHR 0x93] @ ''TO'' @ [CHR 0xE2, CHR 0x80, CHR 0x93] @ ''SMALL TABLE\<newline>''),
     ''\<newline>'',
     (''When the table is small enough to fit into the memory of a single worker node, with some breathing room of course, we can optimize our join. Although we can use a big table'' @ [CHR 0xE2, CHR 0x80, CHR 0x93] @ ''to'' @ [CHR 0xE2, CHR 0x80, CHR 0x93] @ ''big table communication strategy, it can often be more efficient to use a broadcast join. What this means is that we will replicate our small DataFrame onto every worker node in the cluster (be it located on one machine or many). Now this sounds expensive. However, what this does is to prevent us from performing the all-to-all communication during the entire join process. Instead, we perform it only once at the beginning and then let each individual worker node perform the work without having to wait or communicate with any other worker node, as is depicted in the figure below:\<newline>''),
     ''\<newline>'',
     ''<img src="https://github.com/soltaniehha/Big-Data-Analytics-for-Business/blob/master/figs/06-03-A-broadcast-join.png?raw=true" width="700" align="center"/>'']\<close>

definition joins_md_18 :: cell where
  \<open>joins_md_18 = Markdown
    [''At the beginning of this join will be a large communication, just like in the previous type of join. However, immediately after that first, there will be no further communication between nodes. This means that joins will be performed on every single node individually, making CPU the biggest bottleneck. For our current set of data, we can see that Spark has automatically set this up as a sort-merge join by looking at the explain plan:'']\<close>

definition joins_in_16 :: cell where
  \<open>joins_in_16 = Code 16
    [Stream ''stdout''
      [''== Physical Plan ==\<newline>'',
       ''*(5) SortMergeJoin [graduate_program#10L], [id#24L], Inner\<newline>'',
       '':- *(2) Sort [graduate_program#10L ASC NULLS FIRST], false, 0\<newline>'',
       '':  +- Exchange hashpartitioning(graduate_program#10L, 200)\<newline>'',
       '':     +- *(1) Project [_1#0L AS id#8L, _2#1 AS name#9, _3#2L AS graduate_program#10L, _4#3 AS spark_status#11]\<newline>'',
       '':        +- *(1) Filter isnotnull(_3#2L)\<newline>'',
       '':           +- Scan ExistingRDD[_1#0L,_2#1,_3#2L,_4#3]\<newline>'',
       ''+- *(4) Sort [id#24L ASC NULLS FIRST], false, 0\<newline>'',
       ''   +- Exchange hashpartitioning(id#24L, 200)\<newline>'',
       ''      +- *(3) Project [_1#16L AS id#24L, _2#17 AS degree#25, _3#18 AS department#26, _4#19 AS school#27]\<newline>'',
       ''         +- *(3) Filter isnotnull(_1#16L)\<newline>'',
       ''            +- Scan ExistingRDD[_1#16L,_2#17,_3#18,_4#19]\<newline>'']]
    [''person.join(graduateProgram, \<newline>'',
     ''           person["graduate_program"] == graduateProgram["id"]).explain()'']\<close>

definition joins_md_19 :: cell where
  \<open>joins_md_19 = Markdown
    [''With the DataFrame API, we can explicitly give the optimizer a hint that we would like to use a broadcast join by using the correct function around the small DataFrame in question:'']\<close>

definition joins_in_17 :: cell where
  \<open>joins_in_17 = Code 17
    [Stream ''stdout''
      [''== Physical Plan ==\<newline>'',
       ''*(2) BroadcastHashJoin [graduate_program#10L], [id#24L], Inner, BuildRight\<newline>'',
       '':- *(2) Project [_1#0L AS id#8L, _2#1 AS name#9, _3#2L AS graduate_program#10L, _4#3 AS spark_status#11]\<newline>'',
       '':  +- *(2) Filter isnotnull(_3#2L)\<newline>'',
       '':     +- Scan ExistingRDD[_1#0L,_2#1,_3#2L,_4#3]\<newline>'',
       ''+- BroadcastExchange HashedRelationBroadcastMode(List(input[0, bigint, true]))\<newline>'',
       ''   +- *(1) Project [_1#16L AS id#24L, _2#17 AS degree#25, _3#18 AS department#26, _4#19 AS school#27]\<newline>'',
       ''      +- *(1) Filter isnotnull(_1#16L)\<newline>'',
       ''         +- Scan ExistingRDD[_1#16L,_2#17,_3#18,_4#19]\<newline>'']]
    [''from pyspark.sql.functions import broadcast\<newline>'',
     ''\<newline>'',
     ''person.join(broadcast(graduateProgram), \<newline>'',
     ''           person["graduate_program"] == graduateProgram["id"]).explain()'']\<close>

definition joins_md_20 :: cell where
  \<open>joins_md_20 = Markdown
    [''if you try to broadcast something too large, you can crash your driver node (because that collect is expensive). This is likely an area for optimization in the future.\<newline>'',
     ''\<newline>'',
     (''### LITTLE TABLE'' @ [CHR 0xE2, CHR 0x80, CHR 0x93] @ ''TO'' @ [CHR 0xE2, CHR 0x80, CHR 0x93] @ ''LITTLE TABLE\<newline>''),
     ''\<newline>'',
     (''When performing joins with small tables, it'' @ [CHR 0xE2, CHR 0x80, CHR 0x99] @ ''s usually best to let Spark decide how to join them. You can always force a broadcast join if you'' @ [CHR 0xE2, CHR 0x80, CHR 0x99] @ ''re noticing strange behavior.'')]\<close>

definition joins_notebook :: notebook where
  \<open>joins_notebook =
   \<lparr>kernel = ''pyspark'', cells =
   [joins_md_1, joins_in_1, joins_md_2, joins_in_2, joins_md_3, joins_in_3, joins_md_4,
    joins_in_4, joins_md_5, joins_in_5, joins_md_6, joins_in_6, joins_md_7, joins_in_7,
    joins_md_8, joins_in_8, joins_md_9, joins_in_9, joins_md_10, joins_in_10, joins_md_11,
    joins_in_11, joins_md_12, joins_in_12, joins_md_13, joins_in_13, joins_md_14, joins_in_14,
    joins_md_15, joins_in_15, joins_md_16, joins_md_17, joins_md_18, joins_in_16, joins_md_19,
    joins_in_17, joins_md_20]\<rparr>\<close>

subsection \<open>The shell cheat sheet\<close>

definition cheat_sheet :: \<open>string list\<close> where
  \<open>cheat_sheet =
    [''*******************************************'',
     ''******* CREATE SINGLE-NODE CLUSTER ********'',
     ''*******************************************'',
     (''gcloud beta dataproc clusters create mycluster '' @ [CHR 0x5C]),
     (''  --project <PROJECT-ID> '' @ [CHR 0x5C]),
     (''  --bucket <BUCKET-NAME> '' @ [CHR 0x5C]),
     (''  --optional-components=ANACONDA,JUPYTER '' @ [CHR 0x5C]),
     (''  --image-version=1.3 '' @ [CHR 0x5C]),
     (''  --enable-component-gateway '' @ [CHR 0x5C]),
     (''  --region us-east1 '' @ [CHR 0x5C]),
     (''  --zone us-east1-b '' @ [CHR 0x5C]),
     (''  --single-node '' @ [CHR 0x5C]),
     (''  --master-machine-type n1-highmem-2 '' @ [CHR 0x5C]),
     ''  --master-boot-disk-size 50'',
     '''',
     ''****************************************************'',
     ''******* CREATE SINGLE-NODE CLUSTER ONE-LINER *******'',
     ''****************************************************'',
     ''gcloud beta dataproc clusters create mycluster --project <PROJECT-ID> --bucket <BUCKET-NAME> --optional-components=ANACONDA,JUPYTER --image-version=1.4 --enable-component-gateway --region us-east1 --zone us-east1-b --single-node --master-machine-type n1-highmem-2 --master-boot-disk-size 50'',
     '''',
     ''**************************'',
     ''******* SSH Tunnel *******'',
     ''**************************'',
     ''gcloud compute ssh mycluster-m --zone us-east1-b -- -L 8080:localhost:8123'',
     ''# OR: Select the cluster and under web interfaces select Jupyter or Jupyter Lab.'',
     '''',
     ''********************************'',
     ''******* JUPYTER NOTEBOOK *******'',
     ''********************************'',
     ''localhost:8080'',
     '''',
     ''*********************************'',
     ''******* TERMINATE CLUSTER *******'',
     ''*********************************'',
     ''gcloud dataproc clusters delete mycluster --region us-east1'']\<close>


section \<open>Reading a notebook\<close>

fun is_code :: "cell \<Rightarrow> bool" where
  "is_code (Code _ _ _) = True"
| "is_code (Markdown _) = False"

definition code_cells :: "notebook \<Rightarrow> cell list" where
  "code_cells nb = filter is_code (cells nb)"

text \<open>The recorded \<^verbatim>\<open>execution_count\<close> values of the code cells, in document order.\<close>

fun execution_counts :: "cell list \<Rightarrow> nat list" where
  "execution_counts [] = []"
| "execution_counts (Markdown _ # cs) = execution_counts cs"
| "execution_counts (Code n _ _ # cs) = n # execution_counts cs"

fun cell_source :: "cell \<Rightarrow> string" where
  "cell_source (Code _ _ src) = concat src"
| "cell_source (Markdown src) = concat src"

fun cell_outputs :: "cell \<Rightarrow> cell_output list" where
  "cell_outputs (Code _ outs _) = outs"
| "cell_outputs (Markdown _) = []"

fun output_lines :: "cell_output \<Rightarrow> string list" where
  "output_lines (Stream _ ls) = ls"
| "output_lines (ExecuteResult _ ls) = ls"

text \<open>Everything a code cell displays: the lines of all its outputs.\<close>

definition printed_lines :: "cell \<Rightarrow> string list" where
  "printed_lines c = concat (map output_lines (cell_outputs c))"



section \<open>Strings\<close>

fun starts_with :: "'a list \<Rightarrow> 'a list \<Rightarrow> bool" where
  "starts_with [] s = True"
| "starts_with (p # ps) [] = False"
| "starts_with (p # ps) (c # cs) = (if p = c then starts_with ps cs else False)"

fun contains :: "'a list \<Rightarrow> 'a list \<Rightarrow> bool" where
  "contains p [] = (p = [])"
| "contains p (c # cs) = (if starts_with p (c # cs) then True else contains p cs)"

text \<open>Python's \<^verbatim>\<open>s.split(sep)\<close> for a one-element separator.\<close>

fun split_on :: "'a \<Rightarrow> 'a list \<Rightarrow> 'a list list" where
  "split_on sep [] = [[]]"
| "split_on sep (c # cs) =
     (if c = sep then [] # split_on sep cs
      else (case split_on sep cs of p # ps \<Rightarrow> (c # p) # ps | [] \<Rightarrow> [[c]]))"

definition trim :: "string \<Rightarrow> string" where
  "trim s = rev (dropWhile (\<lambda>c. c = CHR '' '') (rev (dropWhile (\<lambda>c. c = CHR '' '') s)))"

definition words :: "string \<Rightarrow> string list" where
  "words s = filter (\<lambda>w. w \<noteq> []) (split_on CHR '' '' s)"

fun intercalate :: "'a list \<Rightarrow> 'a list list \<Rightarrow> 'a list" where
  "intercalate sep [] = []"
| "intercalate sep [x] = x"
| "intercalate sep (x # y # ys) = x @ sep @ intercalate sep (y # ys)"

fun digit_char :: "nat \<Rightarrow> char" where
  "digit_char n = char_of (48 + n mod 10)"

fun show_nat :: "nat \<Rightarrow> string" where
  "show_nat n = (if n < 10 then [digit_char n] else show_nat (n div 10) @ [digit_char n])"

text \<open>The capital of a letter of the Latin alphabet; every other character is unchanged.\<close>

definition uppercase :: "char \<Rightarrow> char" where
  "uppercase c =
     (case map_of (zip ''abcdefghijklmnopqrstuvwxyz'' ''ABCDEFGHIJKLMNOPQRSTUVWXYZ'') c of
        Some u \<Rightarrow> u
      | None \<Rightarrow> c)"

definition show_int :: "int \<Rightarrow> string" where
  "show_int i = (if i < 0 then CHR ''-'' # show_nat (nat (- i)) else show_nat (nat i))"


section \<open>The code of a cell\<close>

subsection \<open>Tokens\<close>

text \<open>
  The source of a code cell is Python. Its lexical structure is what the properties below
  are about: names, numbers, string literals (single-quoted or triple-quoted, with either
  quote character), operators and the ends of lines. A comment runs from \<^verbatim>\<open>#\<close> to the
  end of its line, a backslash before a newline continues the line, and the comparison
  operators \<^verbatim>\<open>==\<close>, \<^verbatim>\<open>!=\<close>, \<^verbatim>\<open><=\<close> and \<^verbatim>\<open>>=\<close> are single tokens.
\<close>

datatype token = Name string | Number string | StringLit string | Op string | Newline

datatype lex_mode = InCode | InComment | InString char | InTriple char

definition is_digit :: "char \<Rightarrow> bool" where
  "is_digit c \<longleftrightarrow> (let n = of_char c :: nat in 48 \<le> n \<and> n \<le> 57)"

definition is_name_char :: "char \<Rightarrow> bool" where
  "is_name_char c \<longleftrightarrow>
     (let n = of_char c :: nat in
      (97 \<le> n \<and> n \<le> 122) \<or> (65 \<le> n \<and> n \<le> 90) \<or> (48 \<le> n \<and> n \<le> 57) \<or> n = 95)"

fun flush :: "string \<Rightarrow> token list" where
  "flush [] = []"
| "flush (c # cs) = (if is_digit c then [Number (c # cs)] else [Name (c # cs)])"

text \<open>
  \<open>lex mode acc s\<close> reads \<open>s\<close>; \<open>acc\<close> holds the characters of the name, number or string
  literal being read.
\<close>

fun lex :: "lex_mode \<Rightarrow> string \<Rightarrow> string \<Rightarrow> token list" where
  "lex InCode acc [] = flush acc"
| "lex InComment acc [] = []"
| "lex (InString q) acc [] = [StringLit acc]"
| "lex (InTriple q) acc [] = [StringLit acc]"
| "lex InCode acc (c # cs) =
     (if is_name_char c then lex InCode (acc @ [c]) cs
      else flush acc @
        (if c = CHR ''#'' then lex InComment [] cs
         else if c = CHR 0x22 \<or> c = CHR 0x27 then
           (if take 2 cs = [c, c] then lex (InTriple c) [] (drop 2 cs)
            else lex (InString c) [] cs)
         else if c = CHR 0x5C \<and> take 1 cs = [CHR 0x0A] then lex InCode [] (drop 1 cs)
         else if c = CHR 0x0A then Newline # lex InCode [] cs
         else if c = CHR '' '' \<or> c = CHR 0x09 then lex InCode [] cs
         else if c \<in> set ''=!<>'' \<and> take 1 cs = ''=''
           then Op [c, CHR ''=''] # lex InCode [] (drop 1 cs)
         else Op [c] # lex InCode [] cs))"
| "lex InComment acc (c # cs) =
     (if c = CHR 0x0A then Newline # lex InCode [] cs else lex InComment [] cs)"
| "lex (InString q) acc (c # cs) =
     (if c = CHR 0x5C then lex (InString q) (acc @ c # take 1 cs) (drop 1 cs)
      else if c = q then StringLit acc # lex InCode [] cs
      else lex (InString q) (acc @ [c]) cs)"
| "lex (InTriple q) acc (c # cs) =
     (if c = CHR 0x5C then lex (InTriple q) (acc @ c # take 1 cs) (drop 1 cs)
      else if c = q \<and> take 2 cs = [q, q] then StringLit acc # lex InCode [] (drop 2 cs)
      else lex (InTriple q) (acc @ [c]) cs)"

definition tokens :: "cell \<Rightarrow> token list" where
  "tokens c = lex InCode [] (cell_source c)"

subsection \<open>Statements\<close>

text \<open>
  A statement ends at a newline that is outside every bracket; newlines inside brackets
  only lay the statement out. \<open>split_statements depth acc ts\<close> carries the bracket
  depth and the tokens of the statement being read.
\<close>

fun split_statements :: "nat \<Rightarrow> token list \<Rightarrow> token list \<Rightarrow> token list list" where
  "split_statements d acc [] = (if acc = [] then [] else [acc])"
| "split_statements d acc (Newline # ts) =
     (if d = 0 then (if acc = [] then split_statements 0 [] ts else acc # split_statements 0 [] ts)
      else split_statements d acc ts)"
| "split_statements d acc (Op s # ts) =
     (if s \<in> set [''('', ''['', ''{''] then split_statements (Suc d) (acc @ [Op s]) ts
      else if s \<in> set ['')'', '']'', ''}''] then split_statements (d - 1) (acc @ [Op s]) ts
      else split_statements d (acc @ [Op s]) ts)"
| "split_statements d acc (t # ts) = split_statements d (acc @ [t]) ts"

definition statements :: "cell \<Rightarrow> token list list" where
  "statements c = split_statements 0 [] (tokens c)"

text \<open>The tokens of a cell without the line structure.\<close>

definition cell_tokens :: "cell \<Rightarrow> token list" where
  "cell_tokens c = concat (statements c)"

subsection \<open>Names, calls, attributes and literals\<close>

fun names :: "token list \<Rightarrow> string list" where
  "names [] = []"
| "names (Name s # ts) = s # names ts"
| "names (t # ts) = names ts"

fun string_literals :: "token list \<Rightarrow> string list" where
  "string_literals [] = []"
| "string_literals (StringLit s # ts) = s # string_literals ts"
| "string_literals (t # ts) = string_literals ts"

text \<open>The names that are called: a name directly followed by an opening parenthesis.\<close>

fun calls :: "token list \<Rightarrow> string list" where
  "calls [] = []"
| "calls (Name f # Op s # ts) = (if s = ''('' then f # calls ts else calls ts)"
| "calls (t # ts) = calls ts"

text \<open>The attributes that are read: a name directly after a dot.\<close>

fun attributes :: "token list \<Rightarrow> string list" where
  "attributes [] = []"
| "attributes (Op s # Name a # ts) = (if s = ''.'' then a # attributes ts else attributes ts)"
| "attributes (t # ts) = attributes ts"

text \<open>
  The names an expression reads from the session: every name that is neither an attribute
  (after a dot) nor the name of a keyword argument (before a single \<^verbatim>\<open>=\<close>).
\<close>

fun free_names :: "token list \<Rightarrow> string list" where
  "free_names [] = []"
| "free_names (Op s # Name a # ts) =
     (if s = ''.'' then free_names ts else free_names (Name a # ts))"
| "free_names (Name a # Op s # ts) =
     (if s = ''='' then free_names ts else a # free_names (Op s # ts))"
| "free_names (Name a # ts) = a # free_names ts"
| "free_names (t # ts) = free_names ts"

subsection \<open>The session's namespace\<close>

text \<open>
  A statement of these notebooks is an import (\<^verbatim>\<open>from module import names\<close>), an
  assignment of an expression to a name, or an expression.
\<close>

datatype statement =
    Import "string list" "string list"
  | Assign string "token list"
  | Expr "token list"

fun assignment :: "token list \<Rightarrow> statement" where
  "assignment (Name a # Op s # e) = (if s = ''='' then Assign a e else Expr (Name a # Op s # e))"
| "assignment ts = Expr ts"

definition classify :: "token list \<Rightarrow> statement" where
  "classify ts =
     (if take 1 ts = [Name ''from'']
      then Import (names (takeWhile (\<lambda>t. t \<noteq> Name ''import'') (drop 1 ts)))
                  (names (drop 1 (dropWhile (\<lambda>t. t \<noteq> Name ''import'') ts)))
      else assignment ts)"

definition python_constants :: "string list" where
  "python_constants = [''True'', ''False'', ''None'']"

definition unbound :: "string list \<Rightarrow> token list \<Rightarrow> string list" where
  "unbound env e = filter (\<lambda>n. n \<notin> set env \<and> n \<notin> set python_constants) (free_names e)"

text \<open>
  Does a statement stay with the engine? \<open>check_statement env s\<close> takes the names bound
  so far. An import from the engine's package \<^verbatim>\<open>pyspark\<close> binds the imported names; an
  assignment whose expression reads only bound names binds its target; an expression must
  read only bound names. Anything else gives \<open>None\<close>: a name that nothing of the session
  bound (a Python builtin such as \<^verbatim>\<open>print\<close> among them), or an import from another
  package.
\<close>

fun check_statement :: "string list \<Rightarrow> statement \<Rightarrow> string list option" where
  "check_statement env (Import m ns) =
     (if take 1 m = [''pyspark''] then Some (env @ ns) else None)"
| "check_statement env (Assign a e) = (if unbound env e = [] then Some (env @ [a]) else None)"
| "check_statement env (Expr e) = (if unbound env e = [] then Some env else None)"

fun check_statements :: "string list \<Rightarrow> statement list \<Rightarrow> string list option" where
  "check_statements env [] = Some env"
| "check_statements env (s # ss) =
     (case check_statement env s of None \<Rightarrow> None | Some env' \<Rightarrow> check_statements env' ss)"

text \<open>
  The \<^verbatim>\<open>pyspark\<close> kernel starts every session with the engine's entry point bound to
  the name \<^verbatim>\<open>spark\<close>; another kernel binds nothing. The cells run in document order
  (their execution counts are consecutive).
\<close>

definition initial_names :: "string \<Rightarrow> string list" where
  "initial_names k = (if k = ''pyspark'' then [''spark''] else [])"

definition program :: "notebook \<Rightarrow> statement list" where
  "program nb = map classify (concat (map statements (code_cells nb)))"

fun is_import :: "statement \<Rightarrow> bool" where
  "is_import (Import m ns) = True"
| "is_import (Assign a e) = False"
| "is_import (Expr e) = False"

definition session :: "notebook \<Rightarrow> string list option" where
  "session nb = check_statements (initial_names (kernel nb)) (program nb)"

subsection \<open>What a cell invokes\<close>

text \<open>
  An expression of these cells is a chain: it starts at a name or a literal (its root) and
  goes on with attributes (\<^verbatim>\<open>.name\<close>), calls (\<^verbatim>\<open>(\<dots>)\<close>) and subscripts
  (\<^verbatim>\<open>[\<dots>]\<close>). What a cell invokes is

    \<^item> a method: the name before the parenthesis comes after a dot; the invocation records
      the root of the chain, the names between the root and the method, and the method;
    \<^item> a function: the name before the parenthesis is the root itself;
    \<^item> a method of a bracketed expression, whose receiver has no root;
    \<^item> a subscript of a chain, with the root and the names of the chain;
    \<^item> an operator other than the punctuation of attributes, brackets, arguments,
      bindings and slices, with the root of its left operand (if that is a chain) and the
      first token of its right operand.
\<close>

datatype invocation =
    Method token "string list" string
  | Function string
  | Detached string
  | Subscript token "string list"
  | Operation string "token option" "token option"

text \<open>
  The chains are read with a stack: the chain of every bracket that is open, innermost
  first. \<open>None\<close> stands for a bracket in which no chain has started.
\<close>

type_synonym chain = "(token \<times> string list) option"

fun begin_chain :: "token \<Rightarrow> chain list \<Rightarrow> chain list" where
  "begin_chain t [] = [Some (t, [])]"
| "begin_chain t (c # st) = Some (t, []) # st"

fun extend_chain :: "string \<Rightarrow> chain list \<Rightarrow> chain list" where
  "extend_chain a (Some (r, p) # st) = Some (r, p @ [a]) # st"
| "extend_chain a st = st"

fun end_chain :: "chain list \<Rightarrow> chain list" where
  "end_chain [] = [None]"
| "end_chain (c # st) = None # st"

fun called :: "bool \<Rightarrow> string \<Rightarrow> chain list \<Rightarrow> invocation" where
  "called False f st = Function f"
| "called True m (Some (r, p) # st) = Method r p m"
| "called True m st = Detached m"

fun subscripted :: "chain list \<Rightarrow> invocation list" where
  "subscripted (Some (r, p) # st) = [Subscript r p]"
| "subscripted st = []"

fun operand :: "chain list \<Rightarrow> token option" where
  "operand (Some (r, p) # st) = Some r"
| "operand st = None"

fun opens_call :: "token list \<Rightarrow> bool" where
  "opens_call (Op s # ts) = (s = ''('')"
| "opens_call ts = False"

fun first_token :: "token list \<Rightarrow> token option" where
  "first_token [] = None"
| "first_token (t # ts) = Some t"

text \<open>
  \<open>scan st dot ts\<close> reads the tokens \<open>ts\<close> of a statement; \<open>dot\<close> tells whether the
  token before was a dot.
\<close>

fun scan :: "chain list \<Rightarrow> bool \<Rightarrow> token list \<Rightarrow> invocation list" where
  "scan st dot [] = []"
| "scan st dot (Name a # ts) =
     (if opens_call ts then [called dot a st] else []) @
     scan (if dot then extend_chain a st else begin_chain (Name a) st) False ts"
| "scan st dot (StringLit s # ts) = scan (begin_chain (StringLit s) st) False ts"
| "scan st dot (Number n # ts) = scan (begin_chain (Number n) st) False ts"
| "scan st dot (Newline # ts) = scan (end_chain st) False ts"
| "scan st dot (Op s # ts) =
     (if s = ''.'' then scan st True ts
      else if s \<in> set [''('', ''{''] then scan (None # st) False ts
      else if s = ''['' then subscripted st @ scan (None # st) False ts
      else if s \<in> set ['')'', '']'', ''}''] then scan (drop 1 st) False ts
      else if s \<in> set ['','', ''='', '':''] then scan (end_chain st) False ts
      else Operation s (operand st) (first_token ts) # scan (end_chain st) False ts)"

definition invocations :: "cell \<Rightarrow> invocation list" where
  "invocations c = concat (map (scan [None] False) (statements c))"

text \<open>
  An invocation stays with the engine when its root is a name that stands for an object of
  the engine and every name on the way is public (in Python a name with a leading
  underscore is not part of a library's interface). \<open>foreign env i\<close> holds of every other
  invocation, \<open>env\<close> being the names that stand for objects of the engine: a method or a
  subscript of a literal, of a bracketed expression or of another name, a method reached
  through a private name, a function that is not the engine's, an operator whose left
  operand is not an object of the engine.
\<close>

fun foreign :: "string list \<Rightarrow> invocation \<Rightarrow> bool" where
  "foreign env (Method (Name r) p m) =
     (if r \<in> set env then list_ex (starts_with ''_'') (p @ [m]) else True)"
| "foreign env (Method t p m) = True"
| "foreign env (Function f) = (f \<notin> set env)"
| "foreign env (Detached m) = True"
| "foreign env (Subscript (Name r) p) =
     (if r \<in> set env then list_ex (starts_with ''_'') p else True)"
| "foreign env (Subscript t p) = True"
| "foreign env (Operation s (Some (Name r)) t) = (r \<notin> set env)"
| "foreign env (Operation s l t) = True"

text \<open>
  The names that stand for objects of the engine: the name \<^verbatim>\<open>spark\<close> that the kernel
  binds, the names imported from \<^verbatim>\<open>pyspark\<close>, and every name assigned an expression
  that starts at such a name and holds no foreign invocation. A name bound to anything else
  (a Python string, say) is not among them.
\<close>

fun heads_in :: "string list \<Rightarrow> token list \<Rightarrow> bool" where
  "heads_in env (Name r # e) = (r \<in> set env)"
| "heads_in env e = False"

definition produced_by_engine :: "string list \<Rightarrow> token list \<Rightarrow> bool" where
  "produced_by_engine env e \<longleftrightarrow>
     heads_in env e \<and> filter (foreign env) (scan [None] False e) = []"

fun engine_objects_from :: "string list \<Rightarrow> statement list \<Rightarrow> string list" where
  "engine_objects_from env [] = env"
| "engine_objects_from env (Import m ns # ss) =
     engine_objects_from (if take 1 m = [''pyspark''] then env @ ns else env) ss"
| "engine_objects_from env (Assign a e # ss) =
     engine_objects_from (if produced_by_engine env e then env @ [a] else env) ss"
| "engine_objects_from env (Expr e # ss) = engine_objects_from env ss"

definition engine_objects :: "notebook \<Rightarrow> string list" where
  "engine_objects nb = engine_objects_from (initial_names (kernel nb)) (program nb)"

text \<open>The names a statement reads, and those of a cell that are not objects of the engine.\<close>

fun reads :: "statement \<Rightarrow> string list" where
  "reads (Import m ns) = []"
| "reads (Assign a e) = free_names e"
| "reads (Expr e) = free_names e"

definition other_names :: "string list \<Rightarrow> cell \<Rightarrow> string list" where
  "other_names env c =
     filter (\<lambda>n. n \<notin> set (env @ python_constants))
       (concat (map (reads \<circ> classify) (statements c)))"

text \<open>
  A cell leaves the engine's interface when it holds a foreign invocation or reads a name
  that is not an object of the engine.
\<close>

definition leaves_engine :: "string list \<Rightarrow> cell \<Rightarrow> bool" where
  "leaves_engine env c \<longleftrightarrow>
     list_ex (foreign env) (invocations c) \<or> other_names env c \<noteq> []"

subsection \<open>What a cell does\<close>

text \<open>
  \<^verbatim>\<open>show\<close> and \<^verbatim>\<open>explain\<close> print the DataFrame they are called on; every other call
  asks the library for a result.
\<close>

definition printing_methods :: "string list" where
  "printing_methods = [''show'', ''explain'']"

definition library_calls :: "cell \<Rightarrow> string list" where
  "library_calls c = filter (\<lambda>f. f \<notin> set printing_methods) (calls (cell_tokens c))"

definition prints :: "cell \<Rightarrow> bool" where
  "prints c \<longleftrightarrow> cell_outputs c \<noteq> []"

text \<open>The cell calls a single library method and prints the result.\<close>

definition single_call_printed :: "cell \<Rightarrow> bool" where
  "single_call_printed c \<longleftrightarrow> length (library_calls c) = 1 \<and> prints c"

text \<open>
  A statement that prints nothing: it binds a name (an assignment or an import), or it is
  a chain of calls that ends by registering a temporary view.
\<close>

fun is_binding :: "statement \<Rightarrow> bool" where
  "is_binding (Import m ns) = True"
| "is_binding (Assign a e) = True"
| "is_binding (Expr e) = False"

definition registers_view :: "token list \<Rightarrow> bool" where
  "registers_view s \<longleftrightarrow>
     (case rev (calls s) of [] \<Rightarrow> False | f # _ \<Rightarrow> f = ''createOrReplaceTempView'')"

definition binds_or_registers :: "cell \<Rightarrow> bool" where
  "binds_or_registers c \<longleftrightarrow>
     list_all (\<lambda>s. is_binding (classify s) \<or> registers_view s) (statements c)"

text \<open>
  The words with which Python defines a function or a class, and the names under which
  the engine registers a user-defined function.
\<close>

definition definition_words :: "string list" where
  "definition_words =
     [''def'', ''class'', ''lambda'', ''udf'', ''pandas_udf'', ''UserDefinedFunction'', ''register'',
      ''registerFunction'', ''registerJavaFunction'']"

definition defines_something :: "cell \<Rightarrow> bool" where
  "defines_something c \<longleftrightarrow>
     list_ex (\<lambda>n. n \<in> set definition_words) (names (cell_tokens c)) \<or>
     Op ''@'' \<in> set (cell_tokens c)"

text \<open>The words with which Python branches, loops or returns.\<close>

definition control_flow_words :: "string list" where
  "control_flow_words =
     [''if'', ''elif'', ''else'', ''for'', ''while'', ''with'', ''return'', ''yield'']"

definition has_control_flow :: "cell \<Rightarrow> bool" where
  "has_control_flow c \<longleftrightarrow> list_ex (\<lambda>n. n \<in> set control_flow_words) (names (cell_tokens c))"

text \<open>
  The texts a cell hands to the engine are its string literals; SQL does not distinguish
  the case of letters. \<open>sql_mentions w c\<close>: the word or phrase \<open>w\<close>, in capitals,
  occurs in a string literal of \<open>c\<close>. The SQL statements that register a user-defined
  function hold the word \<^verbatim>\<open>FUNCTION\<close>.
\<close>

definition sql_mentions :: "string \<Rightarrow> cell \<Rightarrow> bool" where
  "sql_mentions w c \<longleftrightarrow>
     list_ex (\<lambda>s. contains w (map uppercase s)) (string_literals (cell_tokens c))"











text \<open>
  An attribute whose name starts with an underscore is not part of a Python library's
  public interface. A string literal with the scheme \<^verbatim>\<open>gs://\<close> addresses cloud storage.
\<close>

definition private_attributes :: "cell \<Rightarrow> string list" where
  "private_attributes c = filter (starts_with ''_'') (attributes (cell_tokens c))"

definition storage_addresses :: "cell \<Rightarrow> string list" where
  "storage_addresses c = filter (contains ''gs://'') (string_literals (cell_tokens c))"

definition public_engine_api_only :: "cell \<Rightarrow> bool" where
  "public_engine_api_only c \<longleftrightarrow> private_attributes c = [] \<and> storage_addresses c = []"

subsection \<open>Errors on display\<close>




section \<open>Displayed tables\<close>

text \<open>
  \<^verbatim>\<open>show()\<close> prints a DataFrame as a table: a border line, the header, a border line,
  one line per row and a border line, followed by an empty line. The cells of a line stand
  between vertical bars, padded with spaces.
\<close>

record shown_table =
  header :: "string list"
  body :: "string list list"

definition is_row_line :: "string \<Rightarrow> bool" where
  "is_row_line l \<longleftrightarrow> starts_with ''|'' l"

definition parse_row :: "string \<Rightarrow> string list" where
  "parse_row l = map trim (butlast (drop 1 (split_on CHR ''|'' l)))"

definition parse_table :: "string list \<Rightarrow> shown_table" where
  "parse_table ls =
     (let rs = map parse_row (filter is_row_line ls)
      in \<lparr>header = (case rs of [] \<Rightarrow> [] | h # _ \<Rightarrow> h), body = drop 1 rs\<rparr>)"

definition shown_tables :: "cell \<Rightarrow> shown_table list" where
  "shown_tables c =
     map parse_table (filter (\<lambda>b. b \<noteq> []) (split_on ''\<newline>'' (printed_lines c)))"


section \<open>Datasets and joins\<close>

text \<open>
  The two datasets of the joins notebook, as its first code cell writes them: rows of
  integers, strings and integer arrays, with the column names given to \<^verbatim>\<open>toDF\<close>.
\<close>

datatype val = IntV int | StrV string | ArrV "int list" | Null

record dataframe =
  columns :: "string list"
  rows :: "val list list"

definition person :: dataframe where
  "person = \<lparr>columns = [''id'', ''name'', ''graduate_program'', ''spark_status''],
     rows = [[IntV 0, StrV ''Bill Chambers'', IntV 0, ArrV [100]],
             [IntV 1, StrV ''Matei Zaharia'', IntV 1, ArrV [500, 250, 100]],
             [IntV 2, StrV ''Michael Armbrust'', IntV 1, ArrV [250, 100]]]\<rparr>"

definition graduateProgram :: dataframe where
  "graduateProgram = \<lparr>columns = [''id'', ''degree'', ''department'', ''school''],
     rows = [[IntV 0, StrV ''Masters'', StrV ''School of Information'', StrV ''UC Berkeley''],
             [IntV 2, StrV ''Masters'', StrV ''EECS'', StrV ''UC Berkeley''],
             [IntV 1, StrV ''Ph.D.'', StrV ''EECS'', StrV ''UC Berkeley'']]\<rparr>"

text \<open>The Python text of a dataset: the statement that creates it, as tokens.\<close>

fun val_tokens :: "val \<Rightarrow> token list" where
  "val_tokens (IntV i) = [Number (show_int i)]"
| "val_tokens (StrV s) = [StringLit s]"
| "val_tokens (ArrV xs) =
     [Op ''[''] @ intercalate [Op '',''] (map (\<lambda>i. [Number (show_int i)]) xs) @ [Op '']'']"
| "val_tokens Null = [Name ''None'']"

definition row_tokens :: "val list \<Rightarrow> token list" where
  "row_tokens r = [Op ''(''] @ intercalate [Op '',''] (map val_tokens r) @ [Op '')'']"

definition createDataFrame_statement :: "string \<Rightarrow> dataframe \<Rightarrow> token list" where
  "createDataFrame_statement name df =
     [Name name, Op ''='', Name ''spark'', Op ''.'', Name ''createDataFrame'', Op ''('', Op ''['']
     @ intercalate [Op '',''] (map row_tokens (rows df))
     @ [Op '']'', Op '')'', Op ''.'', Name ''toDF'', Op ''('']
     @ intercalate [Op '',''] (map (\<lambda>c. [StringLit c]) (columns df))
     @ [Op '')'']"

text \<open>
  The Python text of the cells that join the two datasets: the key equality, a call of
  \<^verbatim>\<open>show()\<close> on an expression, and the join of \<open>l\<close> with \<open>r\<close> on the key equality
  with the join type \<open>how\<close>.
\<close>

definition key_equality :: "token list" where
  "key_equality =
     [Name ''person'', Op ''['', StringLit ''graduate_program'', Op '']'', Op ''=='',
      Name ''graduateProgram'', Op ''['', StringLit ''id'', Op '']'']"

definition method_call :: "token list \<Rightarrow> string \<Rightarrow> token list \<Rightarrow> token list" where
  "method_call e m args = e @ [Op ''.'', Name m, Op ''(''] @ args @ [Op '')'']"

definition function_call :: "string \<Rightarrow> token list \<Rightarrow> token list" where
  "function_call f args = [Name f, Op ''(''] @ args @ [Op '')'']"

definition join_statement :: "string \<Rightarrow> string \<Rightarrow> string \<Rightarrow> string \<Rightarrow> token list" where
  "join_statement l r how printer =
     method_call
       (method_call [Name l] ''join''
          ([Name r, Op '','', Name ''on'', Op ''=''] @ key_equality
           @ [Op '','', Name ''how'', Op ''='', StringLit how]))
       printer []"

subsection \<open>The join types\<close>

text \<open>
  The engine that executes a join is not part of the repository. The definitions below are
  the relational definitions of the join types, in the words of the notebook: an inner join
  keeps the pairs of rows whose keys match; an outer join also keeps the rows without a
  match, padded with null; a left semi join keeps the left rows that have a match and a
  left anti join those that have none, both without any column of the right side; a cross
  join pairs every row of the left with every row of the right.
\<close>

fun index_of :: "'a \<Rightarrow> 'a list \<Rightarrow> nat option" where
  "index_of x [] = None"
| "index_of x (y # ys) = (if x = y then Some 0 else map_option Suc (index_of x ys))"

fun nth_or :: "'a \<Rightarrow> 'a list \<Rightarrow> nat \<Rightarrow> 'a" where
  "nth_or d [] n = d"
| "nth_or d (x # xs) 0 = x"
| "nth_or d (x # xs) (Suc n) = nth_or d xs n"

text \<open>
  \<open>col df name\<close> reads the column \<open>name\<close> of a row of \<open>df\<close>, as \<^verbatim>\<open>df["name"]\<close> does in
  a join expression. A name that \<open>df\<close> does not have reads as null here (the engine
  rejects it), and null equals nothing.
\<close>

definition col :: "dataframe \<Rightarrow> string \<Rightarrow> val list \<Rightarrow> val" where
  "col df name r = (case index_of name (columns df) of None \<Rightarrow> Null | Some i \<Rightarrow> nth_or Null r i)"

fun sql_eq :: "val \<Rightarrow> val \<Rightarrow> bool" where
  "sql_eq Null b = False"
| "sql_eq a Null = False"
| "sql_eq a b = (a = b)"

text \<open>
  The key equality of every join of the notebook:
  \<^verbatim>\<open>person["graduate_program"] == graduateProgram['id']\<close>, on a row of \<open>person\<close> and a
  row of \<open>graduateProgram\<close>.
\<close>

definition joinExpression :: "val list \<Rightarrow> val list \<Rightarrow> bool" where
  "joinExpression p g = sql_eq (col person ''graduate_program'' p) (col graduateProgram ''id'' g)"

definition nulls :: "dataframe \<Rightarrow> val list" where
  "nulls df = replicate (length (columns df)) Null"

definition matching_pairs ::
  "('a list \<Rightarrow> 'a list \<Rightarrow> bool) \<Rightarrow> 'a list list \<Rightarrow> 'a list list \<Rightarrow> 'a list list" where
  "matching_pairs on ls rs = concat (map (\<lambda>l. map (\<lambda>r. l @ r) (filter (on l) rs)) ls)"

definition matched_left ::
  "('a \<Rightarrow> 'b \<Rightarrow> bool) \<Rightarrow> 'a list \<Rightarrow> 'b list \<Rightarrow> 'a list" where
  "matched_left on ls rs = filter (\<lambda>l. list_ex (on l) rs) ls"

definition unmatched_left ::
  "('a \<Rightarrow> 'b \<Rightarrow> bool) \<Rightarrow> 'a list \<Rightarrow> 'b list \<Rightarrow> 'a list" where
  "unmatched_left on ls rs = filter (\<lambda>l. \<not> list_ex (on l) rs) ls"

definition unmatched_right ::
  "('a \<Rightarrow> 'b \<Rightarrow> bool) \<Rightarrow> 'a list \<Rightarrow> 'b list \<Rightarrow> 'b list" where
  "unmatched_right on ls rs = filter (\<lambda>r. \<not> list_ex (\<lambda>l. on l r) ls) rs"

datatype join_type = Inner | Outer | LeftOuter | RightOuter | LeftSemi | LeftAnti

text \<open>The values of the parameter \<^verbatim>\<open>how\<close> that the notebook uses.\<close>

definition join_type_of :: "string \<Rightarrow> join_type option" where
  "join_type_of how =
     (if how = ''inner'' then Some Inner
      else if how = ''outer'' then Some Outer
      else if how = ''left_outer'' then Some LeftOuter
      else if how = ''right_outer'' then Some RightOuter
      else if how = ''left_semi'' then Some LeftSemi
      else if how = ''left_anti'' then Some LeftAnti
      else None)"

fun join :: "dataframe \<Rightarrow> dataframe \<Rightarrow> (val list \<Rightarrow> val list \<Rightarrow> bool) \<Rightarrow> join_type \<Rightarrow> dataframe" where
  "join l r on Inner =
     \<lparr>columns = columns l @ columns r, rows = matching_pairs on (rows l) (rows r)\<rparr>"
| "join l r on LeftOuter =
     \<lparr>columns = columns l @ columns r,
      rows = matching_pairs on (rows l) (rows r)
           @ map (\<lambda>x. x @ nulls r) (unmatched_left on (rows l) (rows r))\<rparr>"
| "join l r on RightOuter =
     \<lparr>columns = columns l @ columns r,
      rows = matching_pairs on (rows l) (rows r)
           @ map (\<lambda>y. nulls l @ y) (unmatched_right on (rows l) (rows r))\<rparr>"
| "join l r on Outer =
     \<lparr>columns = columns l @ columns r,
      rows = matching_pairs on (rows l) (rows r)
           @ map (\<lambda>x. x @ nulls r) (unmatched_left on (rows l) (rows r))
           @ map (\<lambda>y. nulls l @ y) (unmatched_right on (rows l) (rows r))\<rparr>"
| "join l r on LeftSemi =
     \<lparr>columns = columns l, rows = matched_left on (rows l) (rows r)\<rparr>"
| "join l r on LeftAnti =
     \<lparr>columns = columns l, rows = unmatched_left on (rows l) (rows r)\<rparr>"

text \<open>
  Modelled from the spec: the engine's \<^verbatim>\<open>crossJoin\<close> is not in the repository; this is
  the cartesian product the notebook describes (``join every single row in the left
  DataFrame to every single row in the right DataFrame'').
\<close>

definition cross_pairs :: "'a list list \<Rightarrow> 'a list list \<Rightarrow> 'a list list" where
  "cross_pairs ls rs = concat (map (\<lambda>x. map (\<lambda>y. x @ y) rs) ls)"

definition crossJoin :: "dataframe \<Rightarrow> dataframe \<Rightarrow> dataframe" where
  "crossJoin l r = \<lparr>columns = columns l @ columns r, rows = cross_pairs (rows l) (rows r)\<rparr>"

subsection \<open>How a DataFrame is shown\<close>

text \<open>
  \<^verbatim>\<open>show()\<close> prints an integer in decimal, a string as it is, an array in brackets
  with its elements separated by a comma and a space, and null as \<^verbatim>\<open>null\<close>; a text of
  more than 20 characters is cut to its first 17 characters and three dots.
\<close>

fun show_val :: "val \<Rightarrow> string" where
  "show_val (IntV i) = show_int i"
| "show_val (StrV s) = s"
| "show_val (ArrV xs) = ''['' @ intercalate '', '' (map show_int xs) @ '']''"
| "show_val Null = ''null''"

definition truncate20 :: "string \<Rightarrow> string" where
  "truncate20 s = (if 20 < length s then take 17 s @ ''...'' else s)"

definition shown :: "dataframe \<Rightarrow> shown_table" where
  "shown df = \<lparr>header = map truncate20 (columns df),
               body = map (map (truncate20 \<circ> show_val)) (rows df)\<rparr>"

text \<open>
  A cell shows exactly a DataFrame when its output is one table with the DataFrame's
  header and the DataFrame's rows, in any order (a join fixes no order of its rows).
\<close>

fun same_table :: "shown_table list \<Rightarrow> shown_table \<Rightarrow> bool" where
  "same_table [t] u \<longleftrightarrow> header t = header u \<and> mset (body t) = mset (body u)"
| "same_table ts u \<longleftrightarrow> False"

definition shows_exactly :: "cell \<Rightarrow> dataframe \<Rightarrow> bool" where
  "shows_exactly c df \<longleftrightarrow> same_table (shown_tables c) (shown df)"

text \<open>
  What a join cell computes. The session binds the two datasets to their names; the key
  equality names its columns by DataFrame, so it reads the same on whichever side of the
  join a DataFrame stands; \<^verbatim>\<open>how\<close> names the join type.
\<close>

definition dataset :: "string \<Rightarrow> dataframe option" where
  "dataset n =
     (if n = ''person'' then Some person
      else if n = ''graduateProgram'' then Some graduateProgram
      else None)"

definition key_equality_on :: "string \<Rightarrow> val list \<Rightarrow> val list \<Rightarrow> bool" where
  "key_equality_on l x y = (if l = ''person'' then joinExpression x y else joinExpression y x)"

definition run_join :: "string \<Rightarrow> string \<Rightarrow> string \<Rightarrow> dataframe option" where
  "run_join l r how =
     (case (dataset l, dataset r, join_type_of how) of
        (Some a, Some b, Some t) \<Rightarrow> Some (join a b (key_equality_on l) t)
      | _ \<Rightarrow> None)"

text \<open>
  The cell is the statement \<^verbatim>\<open>l.join(r, on = ..., how = "how").show()\<close> and shows
  exactly what that join computes.
\<close>

definition shows_join :: "cell \<Rightarrow> string \<Rightarrow> string \<Rightarrow> string \<Rightarrow> bool" where
  "shows_join c l r how \<longleftrightarrow>
     statements c = [join_statement l r how ''show''] \<and>
     (case run_join l r how of None \<Rightarrow> False | Some df \<Rightarrow> shows_exactly c df)"

text \<open>Exchanging the two sides of a joined row and of a joined table.\<close>

definition swap_sides :: "nat \<Rightarrow> 'a list \<Rightarrow> 'a list" where
  "swap_sides n r = drop n r @ take n r"

definition swap_table :: "nat \<Rightarrow> shown_table \<Rightarrow> shown_table" where
  "swap_table n t = \<lparr>header = swap_sides n (header t), body = map (swap_sides n) (body t)\<rparr>"


section \<open>Physical plans\<close>

text \<open>
  \<^verbatim>\<open>explain()\<close> prints the physical plan as a tree, one operator per line: the root
  first, each child below its parent and indented by three more characters of tree
  drawing (\<^verbatim>\<open>:- \<close>, \<^verbatim>\<open>+- \<close>, \<^verbatim>\<open>:  \<close> or blanks). An operator compiled by whole-stage code
  generation carries the mark \<^verbatim>\<open>*(n)\<close> before its name.
\<close>

record plan_node =
  depth :: nat
  description :: string

definition operator :: "plan_node \<Rightarrow> string" where
  "operator n = takeWhile (\<lambda>c. c \<noteq> CHR '' '') (description n)"

definition strip_codegen :: "string \<Rightarrow> string" where
  "strip_codegen s =
     (if starts_with ''*('' s then drop 1 (dropWhile (\<lambda>c. c \<noteq> CHR '' '') s) else s)"

definition parse_plan_line :: "string \<Rightarrow> plan_node" where
  "parse_plan_line l =
     (let line = takeWhile (\<lambda>c. c \<noteq> CHR 0x0A) l;
          indent = takeWhile (\<lambda>c. c \<in> set '': +-'') line
      in \<lparr>depth = length indent div 3,
          description = strip_codegen (drop (length indent) line)\<rparr>)"

definition physical_plan :: "cell \<Rightarrow> plan_node list" where
  "physical_plan c =
     (case printed_lines c of
        [] \<Rightarrow> []
      | h # ls \<Rightarrow> if h = ''== Physical Plan ==\<newline>'' then map parse_plan_line ls else [])"

text \<open>The subtrees rooted at depth \<open>d\<close>, each as the list of its nodes.\<close>

function subtrees :: "nat \<Rightarrow> plan_node list \<Rightarrow> plan_node list list" where
  "subtrees d [] = []"
| "subtrees d (n # ns) =
     (if depth n = d
      then (n # takeWhile (\<lambda>m. d < depth m) ns) # subtrees d (dropWhile (\<lambda>m. d < depth m) ns)
      else subtrees d ns)"
  by pat_completeness auto
termination
  by (relation "measure (\<lambda>(d, ns). length ns)") (auto simp: less_Suc_eq_le length_dropWhile_le)

definition root_operator :: "plan_node list \<Rightarrow> string" where
  "root_operator p = (case p of [] \<Rightarrow> [] | n # _ \<Rightarrow> operator n)"

text \<open>The inputs of the join at the root: the subtrees of the root's children.\<close>

definition join_inputs :: "plan_node list \<Rightarrow> plan_node list list" where
  "join_inputs p = subtrees 1 (drop 1 p)"

text \<open>
  The join keys stand in brackets on the root's line: the key of the left input, then
  the key of the right input. \<open>bracketed s\<close> lists the texts between brackets in \<open>s\<close>.
\<close>

fun bracketed :: "string \<Rightarrow> string list" where
  "bracketed [] = []"
| "bracketed (c # cs) =
     (if c = CHR ''[''
      then takeWhile (\<lambda>x. x \<noteq> CHR '']'') cs # bracketed cs
      else bracketed cs)"

definition join_keys :: "plan_node list \<Rightarrow> string list" where
  "join_keys p = (case p of [] \<Rightarrow> [] | n # _ \<Rightarrow> bracketed (description n))"

definition sorts_on :: "string \<Rightarrow> plan_node \<Rightarrow> bool" where
  "sorts_on key n \<longleftrightarrow> starts_with (''Sort ['' @ key @ '' '') (description n)"

definition hash_partitions_on :: "string \<Rightarrow> plan_node \<Rightarrow> bool" where
  "hash_partitions_on key n \<longleftrightarrow>
     starts_with (''Exchange hashpartitioning('' @ key @ '','') (description n)"

definition is_shuffle :: "plan_node \<Rightarrow> bool" where
  "is_shuffle n \<longleftrightarrow> starts_with ''Exchange hashpartitioning'' (description n)"

definition is_broadcast :: "plan_node \<Rightarrow> bool" where
  "is_broadcast n \<longleftrightarrow> operator n = ''BroadcastExchange''"

text \<open>
  The glossary's sort-merge join: each input is partitioned (exchanged by hash) and sorted
  on its join key.
\<close>

fun partitioned_and_sorted :: "string list \<Rightarrow> plan_node list list \<Rightarrow> bool" where
  "partitioned_and_sorted [] [] \<longleftrightarrow> True"
| "partitioned_and_sorted (k # ks) (t # ts) \<longleftrightarrow>
     list_ex (sorts_on k) t \<and> list_ex (hash_partitions_on k) t \<and> partitioned_and_sorted ks ts"
| "partitioned_and_sorted ks ts \<longleftrightarrow> False"


section \<open>The cheat sheet\<close>

text \<open>
  The cheat sheet is a text file: banners of asterisks name its sections, and each section
  holds what is to be pasted or opened. A shell reads a line that ends with a backslash
  together with the next line.
\<close>

fun join_continuations :: "string list \<Rightarrow> string list" where
  "join_continuations [] = []"
| "join_continuations [l] = [l]"
| "join_continuations (l # m # ls) =
     (if l \<noteq> [] \<and> last l = CHR 0x5C then join_continuations ((butlast l @ m) # ls)
      else l # join_continuations (m # ls))"

definition is_banner :: "string \<Rightarrow> bool" where
  "is_banner l \<longleftrightarrow> starts_with ''*'' l"

definition is_shell_comment :: "string \<Rightarrow> bool" where
  "is_shell_comment l \<longleftrightarrow> starts_with ''#'' l"

definition entries :: "string list \<Rightarrow> string list" where
  "entries sheet =
     filter (\<lambda>l. l \<noteq> [] \<and> \<not> is_banner l \<and> \<not> is_shell_comment l) (join_continuations sheet)"

text \<open>
  The flags of a command line: \<^verbatim>\<open>--flag=value\<close>, \<^verbatim>\<open>--flag value\<close>, or a flag without a
  value when the next word starts with a dash or the line ends. The other words are
  positional.
\<close>

definition is_flag :: "string \<Rightarrow> bool" where
  "is_flag w \<longleftrightarrow> starts_with ''--'' w \<and> 2 < length w"

fun flags :: "string list \<Rightarrow> (string \<times> string option) list" where
  "flags [] = []"
| "flags (w # ws) =
     (if is_flag w then
        (if CHR ''='' \<in> set w
         then (takeWhile (\<lambda>c. c \<noteq> CHR ''='') w,
               Some (drop 1 (dropWhile (\<lambda>c. c \<noteq> CHR ''='') w))) # flags ws
         else (case ws of
                 [] \<Rightarrow> [(w, None)]
               | v # ws' \<Rightarrow>
                   if starts_with ''-'' v then (w, None) # flags ws else (w, Some v) # flags ws'))
      else flags ws)"

fun positionals :: "string list \<Rightarrow> string list" where
  "positionals [] = []"
| "positionals (w # ws) =
     (if is_flag w then
        (if CHR ''='' \<in> set w then positionals ws
         else (case ws of
                 [] \<Rightarrow> []
               | v # ws' \<Rightarrow> if starts_with ''-'' v then positionals ws else positionals ws'))
      else w # positionals ws)"

text \<open>The two commands that create the single-node cluster: multi-line and one-liner.\<close>

definition commands :: "string list list" where
  "commands = map words (entries cheat_sheet)"

definition create_cluster :: "string list" where
  "create_cluster = nth_or [] commands 0"

definition create_cluster_one_liner :: "string list" where
  "create_cluster_one_liner = nth_or [] commands 1"


section \<open>Auxiliary functions for evaluation\<close>



fun split_on_if :: "bool \<Rightarrow> 'a \<Rightarrow> 'a list list \<Rightarrow> 'a list list" where
  "split_on_if True c ps = [] # ps"
| "split_on_if False c [] = [[c]]"
| "split_on_if False c (p # ps) = (c # p) # ps"

fun filter_if :: "bool \<Rightarrow> ('a \<Rightarrow> bool) \<Rightarrow> 'a \<Rightarrow> 'a list \<Rightarrow> 'a list" where
  "filter_if True P x xs = x # filter P xs"
| "filter_if False P x xs = filter P xs"

fun takeWhile_if :: "bool \<Rightarrow> ('a \<Rightarrow> bool) \<Rightarrow> 'a \<Rightarrow> 'a list \<Rightarrow> 'a list" where
  "takeWhile_if True P x xs = x # takeWhile P xs"
| "takeWhile_if False P x xs = []"

fun dropWhile_if :: "bool \<Rightarrow> ('a \<Rightarrow> bool) \<Rightarrow> 'a \<Rightarrow> 'a list \<Rightarrow> 'a list" where
  "dropWhile_if True P x xs = dropWhile P xs"
| "dropWhile_if False P x xs = x # xs"

datatype char_kind =
  NameChar | Hash | Quote | Backslash | LineEnd | Blank | Comparison | Other

definition char_kind :: "char \<Rightarrow> char_kind" where
  "char_kind c =
     (if is_name_char c then NameChar
      else if c = CHR ''#'' then Hash
      else if c = CHR 0x22 \<or> c = CHR 0x27 then Quote
      else if c = CHR 0x5C then Backslash
      else if c = CHR 0x0A then LineEnd
      else if c = CHR '' '' \<or> c = CHR 0x09 then Blank
      else if c \<in> set ''=!<>'' then Comparison
      else Other)"

fun next_is :: "char \<Rightarrow> string \<Rightarrow> bool" where
  "next_is c [] = False"
| "next_is c (a # cs) = (a = c)"

fun next_two_are :: "char \<Rightarrow> string \<Rightarrow> bool" where
  "next_two_are c (a # b # cs) = (a = c \<and> b = c)"
| "next_two_are c cs = False"

text \<open>
  \<open>lex_code kind triple continued compared c acc cs\<close>: what \<open>lex InCode acc (c # cs)\<close>
  does for a character of that kind, given whether the next two characters repeat the
  quote, whether a newline follows, and whether \<^verbatim>\<open>=\<close> follows.
\<close>

fun lex_code ::
  "char_kind \<Rightarrow> bool \<Rightarrow> bool \<Rightarrow> bool \<Rightarrow> char \<Rightarrow> string \<Rightarrow> string \<Rightarrow> token list" where
  "lex_code NameChar t n e c acc cs = lex InCode (acc @ [c]) cs"
| "lex_code Hash t n e c acc cs = flush acc @ lex InComment [] cs"
| "lex_code Quote True n e c acc cs = flush acc @ lex (InTriple c) [] (drop 2 cs)"
| "lex_code Quote False n e c acc cs = flush acc @ lex (InString c) [] cs"
| "lex_code Backslash t True e c acc cs = flush acc @ lex InCode [] (drop 1 cs)"
| "lex_code Backslash t False e c acc cs = flush acc @ Op [c] # lex InCode [] cs"
| "lex_code LineEnd t n e c acc cs = flush acc @ Newline # lex InCode [] cs"
| "lex_code Blank t n e c acc cs = flush acc @ lex InCode [] cs"
| "lex_code Comparison t n True c acc cs = flush acc @ Op [c, CHR ''=''] # lex InCode [] (drop 1 cs)"
| "lex_code Comparison t n False c acc cs = flush acc @ Op [c] # lex InCode [] cs"
| "lex_code Other t n e c acc cs = flush acc @ Op [c] # lex InCode [] cs"

fun lex_comment :: "bool \<Rightarrow> string \<Rightarrow> token list" where
  "lex_comment True cs = Newline # lex InCode [] cs"
| "lex_comment False cs = lex InComment [] cs"

fun lex_string :: "bool \<Rightarrow> bool \<Rightarrow> char \<Rightarrow> char \<Rightarrow> string \<Rightarrow> string \<Rightarrow> token list" where
  "lex_string True e q c acc cs = lex (InString q) (acc @ c # take 1 cs) (drop 1 cs)"
| "lex_string False True q c acc cs = StringLit acc # lex InCode [] cs"
| "lex_string False False q c acc cs = lex (InString q) (acc @ [c]) cs"

fun lex_triple :: "bool \<Rightarrow> bool \<Rightarrow> char \<Rightarrow> char \<Rightarrow> string \<Rightarrow> string \<Rightarrow> token list" where
  "lex_triple True e q c acc cs = lex (InTriple q) (acc @ c # take 1 cs) (drop 1 cs)"
| "lex_triple False True q c acc cs = StringLit acc # lex InCode [] (drop 2 cs)"
| "lex_triple False False q c acc cs = lex (InTriple q) (acc @ [c]) cs"

fun at_newline :: "bool \<Rightarrow> bool \<Rightarrow> nat \<Rightarrow> token list \<Rightarrow> token list \<Rightarrow> token list list" where
  "at_newline True True d acc ts = split_statements 0 [] ts"
| "at_newline True False d acc ts = acc # split_statements 0 [] ts"
| "at_newline False e d acc ts = split_statements d acc ts"

fun at_operator ::
  "bool \<Rightarrow> bool \<Rightarrow> nat \<Rightarrow> token list \<Rightarrow> string \<Rightarrow> token list \<Rightarrow> token list list" where
  "at_operator True c d acc s ts = split_statements (Suc d) (acc @ [Op s]) ts"
| "at_operator False True d acc s ts = split_statements (d - 1) (acc @ [Op s]) ts"
| "at_operator False False d acc s ts = split_statements d (acc @ [Op s]) ts"


section \<open>Properties\<close>

subsection \<open>Equations for evaluation\<close>



lemma split_on_code [code]:
  "split_on sep [] = [[]]"
  "split_on sep (c # cs) = split_on_if (c = sep) c (split_on sep cs)"
  by (simp_all split: list.split)

lemma filter_code [code]:
  "filter P [] = []"
  "filter P (x # xs) = filter_if (P x) P x xs"
  by simp_all

lemma takeWhile_code [code]:
  "takeWhile P [] = []"
  "takeWhile P (x # xs) = takeWhile_if (P x) P x xs"
  by simp_all

lemma dropWhile_code [code]:
  "dropWhile P [] = []"
  "dropWhile P (x # xs) = dropWhile_if (P x) P x xs"
  by simp_all

lemma next_is_take: "next_is c cs \<longleftrightarrow> take 1 cs = [c]"
  by (cases cs) auto

lemma next_two_are_take: "next_two_are c cs \<longleftrightarrow> take 2 cs = [c, c]"
  by (cases "(c, cs)" rule: next_two_are.cases) auto

lemma lex_code [code]:
  "lex InCode acc [] = flush acc"
  "lex InComment acc [] = []"
  "lex (InString q) acc [] = [StringLit acc]"
  "lex (InTriple q) acc [] = [StringLit acc]"
  "lex InCode acc (c # cs) =
     lex_code (char_kind c) (next_two_are c cs) (next_is (CHR 0x0A) cs) (next_is CHR ''='' cs)
       c acc cs"
  "lex InComment acc (c # cs) = lex_comment (c = CHR 0x0A) cs"
  "lex (InString q) acc (c # cs) = lex_string (c = CHR 0x5C) (c = q) q c acc cs"
  "lex (InTriple q) acc (c # cs) =
     lex_triple (c = CHR 0x5C) (c = q \<and> next_two_are q cs) q c acc cs"
  by (auto simp: char_kind_def next_is_take next_two_are_take)

lemma split_statements_code [code]:
  "split_statements d acc [] = (if acc = [] then [] else [acc])"
  "split_statements d acc (Newline # ts) = at_newline (d = 0) (acc = []) d acc ts"
  "split_statements d acc (Op s # ts) =
     at_operator (s \<in> set [''('', ''['', ''{'']) (s \<in> set ['')'', '']'', ''}'']) d acc s ts"
  "split_statements d acc (Name x # ts) = split_statements d (acc @ [Name x]) ts"
  "split_statements d acc (Number x # ts) = split_statements d (acc @ [Number x]) ts"
  "split_statements d acc (StringLit x # ts) = split_statements d (acc @ [StringLit x]) ts"
  by auto

subsection \<open>The code cells and their statements\<close>

lemma is_code_spark_sql:
  "\<not> is_code sql_md_1" "\<not> is_code sql_md_2" "is_code sql_in_1"
  "\<not> is_code sql_md_3" "is_code sql_in_2" "is_code sql_in_3" "\<not> is_code sql_md_4"
  "is_code sql_in_4" "is_code sql_in_5" "is_code sql_in_6" "\<not> is_code sql_md_5"
  "is_code sql_in_7" "is_code sql_in_8" "is_code sql_in_9" "is_code sql_in_10"
  "is_code sql_in_11" "is_code sql_in_12" "is_code sql_in_13" "\<not> is_code sql_md_6"
  "is_code sql_in_14" "is_code sql_in_15" "\<not> is_code sql_md_7" "is_code sql_in_16"
  "\<not> is_code sql_md_8" "is_code sql_in_17" "is_code sql_in_18"
  "\<not> is_code sql_md_9" "is_code sql_in_19" "is_code sql_in_20"
  "\<not> is_code sql_md_10"
  unfolding sql_md_1_def sql_md_2_def sql_in_1_def sql_md_3_def sql_in_2_def sql_in_3_def
    sql_md_4_def sql_in_4_def sql_in_5_def sql_in_6_def sql_md_5_def sql_in_7_def
    sql_in_8_def sql_in_9_def sql_in_10_def sql_in_11_def sql_in_12_def sql_in_13_def
    sql_md_6_def sql_in_14_def sql_in_15_def sql_md_7_def sql_in_16_def sql_md_8_def
    sql_in_17_def sql_in_18_def sql_md_9_def sql_in_19_def sql_in_20_def sql_md_10_def
  by simp_all

lemma is_code_joins:
  "\<not> is_code joins_md_1" "is_code joins_in_1" "\<not> is_code joins_md_2"
  "is_code joins_in_2" "\<not> is_code joins_md_3" "is_code joins_in_3"
  "\<not> is_code joins_md_4" "is_code joins_in_4" "\<not> is_code joins_md_5"
  "is_code joins_in_5" "\<not> is_code joins_md_6" "is_code joins_in_6"
  "\<not> is_code joins_md_7" "is_code joins_in_7" "\<not> is_code joins_md_8"
  "is_code joins_in_8" "\<not> is_code joins_md_9" "is_code joins_in_9"
  "\<not> is_code joins_md_10" "is_code joins_in_10" "\<not> is_code joins_md_11"
  "is_code joins_in_11" "\<not> is_code joins_md_12" "is_code joins_in_12"
  "\<not> is_code joins_md_13" "is_code joins_in_13" "\<not> is_code joins_md_14"
  "is_code joins_in_14" "\<not> is_code joins_md_15" "is_code joins_in_15"
  "\<not> is_code joins_md_16" "\<not> is_code joins_md_17" "\<not> is_code joins_md_18"
  "is_code joins_in_16" "\<not> is_code joins_md_19" "is_code joins_in_17"
  "\<not> is_code joins_md_20"
  unfolding joins_md_1_def joins_in_1_def joins_md_2_def joins_in_2_def joins_md_3_def
    joins_in_3_def joins_md_4_def joins_in_4_def joins_md_5_def joins_in_5_def
    joins_md_6_def joins_in_6_def joins_md_7_def joins_in_7_def joins_md_8_def
    joins_in_8_def joins_md_9_def joins_in_9_def joins_md_10_def joins_in_10_def
    joins_md_11_def joins_in_11_def joins_md_12_def joins_in_12_def joins_md_13_def
    joins_in_13_def joins_md_14_def joins_in_14_def joins_md_15_def joins_in_15_def
    joins_md_16_def joins_md_17_def joins_md_18_def joins_in_16_def joins_md_19_def
    joins_in_17_def joins_md_20_def
  by simp_all

lemma kernels:
  "kernel spark_sql_notebook = ''pyspark''" "kernel joins_notebook = ''pyspark''"
  by (simp_all add: spark_sql_notebook_def joins_notebook_def)

lemma code_cells_spark_sql:
  "code_cells spark_sql_notebook =
   [sql_in_1, sql_in_2, sql_in_3, sql_in_4, sql_in_5, sql_in_6, sql_in_7, sql_in_8, sql_in_9,
    sql_in_10, sql_in_11, sql_in_12, sql_in_13, sql_in_14, sql_in_15, sql_in_16, sql_in_17,
    sql_in_18, sql_in_19, sql_in_20]"
  by (simp add: code_cells_def spark_sql_notebook_def is_code_spark_sql)

lemma code_cells_joins:
  "code_cells joins_notebook =
   [joins_in_1, joins_in_2, joins_in_3, joins_in_4, joins_in_5, joins_in_6, joins_in_7,
    joins_in_8, joins_in_9, joins_in_10, joins_in_11, joins_in_12, joins_in_13, joins_in_14,
    joins_in_15, joins_in_16, joins_in_17]"
  by (simp add: code_cells_def joins_notebook_def is_code_joins)

text \<open>The statements of every code cell, as the lexer reads them.\<close>

lemma statements_sql_in_1:
  \<open>statements sql_in_1 =
   [[Name ''spark'', Op ''.'', Name ''sql'', Op ''('', StringLit ''SELECT 1 + 1'', Op '')'',
     Op ''.'', Name ''show'', Op ''('', Op '')'']]\<close>
  by code_simp

lemma statements_sql_in_2:
  \<open>statements sql_in_2 =
   [[Name ''bucket'', Op ''='', Name ''spark'', Op ''.'', Name ''_jsc'', Op ''.'',
     Name ''hadoopConfiguration'', Op ''('', Op '')'', Op ''.'', Name ''get'', Op ''('',
     StringLit ''fs.gs.system.bucket'', Op '')''],
    [Name ''data'', Op ''='', StringLit ''gs://'', Op ''+'', Name ''bucket'', Op ''+'',
     StringLit ''/notebooks/data/''],
    [Name ''spark'', Op ''.'', Name ''read'', Op ''.'', Name ''json'', Op ''('', Name ''data'',
     Op ''+'', StringLit ''flight-data/json/2015-summary.json'', Op '')'', Op ''.'',
     Name ''createOrReplaceTempView'', Op ''('', StringLit ''flights_view'', Op '')'']]\<close>
  by code_simp

lemma statements_sql_in_3:
  \<open>statements sql_in_3 =
   [[Name ''spark'', Op ''.'', Name ''sql'', Op ''('',
     StringLit ''\<newline>SELECT DEST_COUNTRY_NAME, sum(count)\<newline>FROM flights_view GROUP BY DEST_COUNTRY_NAME\<newline>'',
     Op '')'', Op ''.'', Name ''where'', Op ''('',
     StringLit (''DEST_COUNTRY_NAME like 'S%'' @ [CHR 0x27]), Op '')'', Op ''.'',
     Name ''where'', Op ''('', StringLit ''`sum(count)` > 10'', Op '')'', Op ''.'',
     Name ''count'', Op ''('', Op '')'']]\<close>
  by code_simp

lemma statements_sql_in_4:
  \<open>statements sql_in_4 =
   [[Name ''spark'', Op ''.'', Name ''sql'', Op ''('',
     StringLit ''\<newline>CREATE TABLE IF NOT EXISTS flights_from_select USING parquet AS SELECT * FROM flights_view\<newline>'',
     Op '')'']]\<close>
  by code_simp

lemma statements_sql_in_5:
  \<open>statements sql_in_5 =
   [[Name ''spark'', Op ''.'', Name ''sql'', Op ''('',
     StringLit ''SELECT * FROM flights_from_select'', Op '')'', Op ''.'', Name ''show'',
     Op ''('', Number ''5'', Op '')'']]\<close>
  by code_simp

lemma statements_sql_in_6:
  \<open>statements sql_in_6 =
   [[Name ''spark'', Op ''.'', Name ''sql'', Op ''('',
     StringLit ''\<newline>DESCRIBE TABLE flights_from_select\<newline>'', Op '')'', Op ''.'',
     Name ''show'', Op ''('', Op '')'']]\<close>
  by code_simp

lemma statements_sql_in_7:
  \<open>statements sql_in_7 =
   [[Name ''Cat'', Op ''='', Name ''spark'', Op ''.'', Name ''catalog'']]\<close>
  by code_simp

lemma statements_sql_in_8:
  \<open>statements sql_in_8 =
   [[Name ''Cat'', Op ''.'', Name ''listTables'', Op ''('', Op '')'']]\<close>
  by code_simp

lemma statements_sql_in_9:
  \<open>statements sql_in_9 =
   [[Name ''spark'', Op ''.'', Name ''sql'', Op ''('', StringLit ''SHOW TABLES'', Op '')'',
     Op ''.'', Name ''show'', Op ''('', Number ''5'', Op '','', Name ''False'', Op '')'']]\<close>
  by code_simp

lemma statements_sql_in_10:
  \<open>statements sql_in_10 =
   [[Name ''Cat'', Op ''.'', Name ''listDatabases'', Op ''('', Op '')'']]\<close>
  by code_simp

lemma statements_sql_in_11:
  \<open>statements sql_in_11 =
   [[Name ''spark'', Op ''.'', Name ''sql'', Op ''('', StringLit ''SHOW DATABASES'', Op '')'',
     Op ''.'', Name ''show'', Op ''('', Op '')'']]\<close>
  by code_simp

lemma statements_sql_in_12:
  \<open>statements sql_in_12 =
   [[Name ''Cat'', Op ''.'', Name ''listColumns'', Op ''('', StringLit ''flights_from_select'',
     Op '')'']]\<close>
  by code_simp

lemma statements_sql_in_13:
  \<open>statements sql_in_13 =
   [[Name ''Cat'', Op ''.'', Name ''listTables'', Op ''('', Op '')'']]\<close>
  by code_simp

lemma statements_sql_in_14:
  \<open>statements sql_in_14 =
   [[Name ''spark'', Op ''.'', Name ''sql'', Op ''('',
     StringLit ''\<newline>CACHE TABLE flights_view\<newline>'', Op '')'']]\<close>
  by code_simp

lemma statements_sql_in_15:
  \<open>statements sql_in_15 =
   [[Name ''spark'', Op ''.'', Name ''sql'', Op ''('',
     StringLit ''\<newline>UNCACHE TABLE flights_view\<newline>'', Op '')'']]\<close>
  by code_simp

lemma statements_sql_in_16:
  \<open>statements sql_in_16 =
   [[Name ''spark'', Op ''.'', Name ''sql'', Op ''('',
     StringLit ''\<newline>EXPLAIN SELECT * FROM just_usa_view\<newline>'', Op '')'', Op ''.'',
     Name ''show'', Op ''('', Number ''1'', Op '','', Name ''False'', Op '')'']]\<close>
  by code_simp

lemma statements_sql_in_17:
  \<open>statements sql_in_17 =
   [[Name ''spark'', Op ''.'', Name ''sql'', Op ''('',
     StringLit (''\<newline>CREATE VIEW just_usa_view AS\<newline>  SELECT * FROM flights_from_select WHERE dest_country_name = 'United States'' @ [CHR 0x27] @ ''\<newline>''),
     Op '')'']]\<close>
  by code_simp

lemma statements_sql_in_18:
  \<open>statements sql_in_18 =
   [[Name ''spark'', Op ''.'', Name ''sql'', Op ''('',
     StringLit ''\<newline>DROP VIEW IF EXISTS just_usa_view\<newline>'', Op '')'']]\<close>
  by code_simp

lemma statements_sql_in_19:
  \<open>statements sql_in_19 =
   [[Name ''spark'', Op ''.'', Name ''sql'', Op ''('',
     StringLit ''DROP TABLE flights_from_select'', Op '')'']]\<close>
  by code_simp

lemma statements_sql_in_20:
  \<open>statements sql_in_20 =
   [[Name ''spark'', Op ''.'', Name ''sql'', Op ''('',
     StringLit ''DROP TABLE IF EXISTS flights_from_select'', Op '')'']]\<close>
  by code_simp

lemma statements_joins_in_1:
  \<open>statements joins_in_1 =
   [[Name ''person'', Op ''='', Name ''spark'', Op ''.'', Name ''createDataFrame'', Op ''('',
     Op ''['', Op ''('', Number ''0'', Op '','', StringLit ''Bill Chambers'', Op '','',
     Number ''0'', Op '','', Op ''['', Number ''100'', Op '']'', Op '')'', Op '','', Op ''('',
     Number ''1'', Op '','', StringLit ''Matei Zaharia'', Op '','', Number ''1'', Op '','',
     Op ''['', Number ''500'', Op '','', Number ''250'', Op '','', Number ''100'', Op '']'',
     Op '')'', Op '','', Op ''('', Number ''2'', Op '','', StringLit ''Michael Armbrust'',
     Op '','', Number ''1'', Op '','', Op ''['', Number ''250'', Op '','', Number ''100'',
     Op '']'', Op '')'', Op '']'', Op '')'', Op ''.'', Name ''toDF'', Op ''('',
     StringLit ''id'', Op '','', StringLit ''name'', Op '','', StringLit ''graduate_program'',
     Op '','', StringLit ''spark_status'', Op '')''],
    [Name ''graduateProgram'', Op ''='', Name ''spark'', Op ''.'', Name ''createDataFrame'',
     Op ''('', Op ''['', Op ''('', Number ''0'', Op '','', StringLit ''Masters'', Op '','',
     StringLit ''School of Information'', Op '','', StringLit ''UC Berkeley'', Op '')'',
     Op '','', Op ''('', Number ''2'', Op '','', StringLit ''Masters'', Op '','',
     StringLit ''EECS'', Op '','', StringLit ''UC Berkeley'', Op '')'', Op '','', Op ''('',
     Number ''1'', Op '','', StringLit ''Ph.D.'', Op '','', StringLit ''EECS'', Op '','',
     StringLit ''UC Berkeley'', Op '')'', Op '']'', Op '')'', Op ''.'', Name ''toDF'', Op ''('',
     StringLit ''id'', Op '','', StringLit ''degree'', Op '','', StringLit ''department'',
     Op '','', StringLit ''school'', Op '')''],
    [Name ''person'', Op ''.'', Name ''show'', Op ''('', Op '')''],
    [Name ''graduateProgram'', Op ''.'', Name ''show'', Op ''('', Op '')'']]\<close>
  by code_simp

lemma statements_joins_in_2:
  \<open>statements joins_in_2 =
   [[Name ''person'', Op ''.'', Name ''createOrReplaceTempView'', Op ''('',
     StringLit ''person'', Op '')''],
    [Name ''graduateProgram'', Op ''.'', Name ''createOrReplaceTempView'', Op ''('',
     StringLit ''graduateProgram'', Op '')'']]\<close>
  by code_simp

lemma statements_joins_in_3:
  \<open>statements joins_in_3 =
   [[Name ''joinExpression'', Op ''='', Name ''person'', Op ''['',
     StringLit ''graduate_program'', Op '']'', Op ''=='', Name ''graduateProgram'', Op ''['',
     StringLit ''id'', Op '']'']]\<close>
  by code_simp

lemma statements_joins_in_4:
  \<open>statements joins_in_4 =
   [[Name ''person'', Op ''.'', Name ''join'', Op ''('', Name ''graduateProgram'', Op '','',
     Name ''joinExpression'', Op '')'', Op ''.'', Name ''show'', Op ''('', Op '')'']]\<close>
  by code_simp

lemma statements_joins_in_5:
  \<open>statements joins_in_5 =
   [[Name ''person'', Op ''.'', Name ''join'', Op ''('', Name ''graduateProgram'', Op '','',
     Name ''on'', Op ''='', Name ''person'', Op ''['', StringLit ''graduate_program'', Op '']'',
     Op ''=='', Name ''graduateProgram'', Op ''['', StringLit ''id'', Op '']'', Op '','',
     Name ''how'', Op ''='', StringLit ''inner'', Op '')'', Op ''.'', Name ''show'', Op ''('',
     Op '')'']]\<close>
  by code_simp

lemma statements_joins_in_6:
  \<open>statements joins_in_6 =
   [[Name ''person'', Op ''.'', Name ''join'', Op ''('', Name ''graduateProgram'', Op '','',
     Name ''on'', Op ''='', Name ''person'', Op ''['', StringLit ''graduate_program'', Op '']'',
     Op ''=='', Name ''graduateProgram'', Op ''['', StringLit ''id'', Op '']'', Op '','',
     Name ''how'', Op ''='', StringLit ''outer'', Op '')'', Op ''.'', Name ''show'', Op ''('',
     Op '')'']]\<close>
  by code_simp

lemma statements_joins_in_7:
  \<open>statements joins_in_7 =
   [[Name ''graduateProgram'', Op ''.'', Name ''join'', Op ''('', Name ''person'', Op '','',
     Name ''on'', Op ''='', Name ''person'', Op ''['', StringLit ''graduate_program'', Op '']'',
     Op ''=='', Name ''graduateProgram'', Op ''['', StringLit ''id'', Op '']'', Op '','',
     Name ''how'', Op ''='', StringLit ''left_outer'', Op '')'', Op ''.'', Name ''show'',
     Op ''('', Op '')'']]\<close>
  by code_simp

lemma statements_joins_in_8:
  \<open>statements joins_in_8 =
   [[Name ''person'', Op ''.'', Name ''join'', Op ''('', Name ''graduateProgram'', Op '','',
     Name ''on'', Op ''='', Name ''person'', Op ''['', StringLit ''graduate_program'', Op '']'',
     Op ''=='', Name ''graduateProgram'', Op ''['', StringLit ''id'', Op '']'', Op '','',
     Name ''how'', Op ''='', StringLit ''right_outer'', Op '')'', Op ''.'', Name ''show'',
     Op ''('', Op '')'']]\<close>
  by code_simp

lemma statements_joins_in_9:
  \<open>statements joins_in_9 =
   [[Name ''graduateProgram'', Op ''.'', Name ''join'', Op ''('', Name ''person'', Op '','',
     Name ''on'', Op ''='', Name ''person'', Op ''['', StringLit ''graduate_program'', Op '']'',
     Op ''=='', Name ''graduateProgram'', Op ''['', StringLit ''id'', Op '']'', Op '','',
     Name ''how'', Op ''='', StringLit ''left_semi'', Op '')'', Op ''.'', Name ''show'',
     Op ''('', Op '')'']]\<close>
  by code_simp

lemma statements_joins_in_10:
  \<open>statements joins_in_10 =
   [[Name ''graduateProgram'', Op ''.'', Name ''join'', Op ''('', Name ''person'', Op '','',
     Name ''on'', Op ''='', Name ''person'', Op ''['', StringLit ''graduate_program'', Op '']'',
     Op ''=='', Name ''graduateProgram'', Op ''['', StringLit ''id'', Op '']'', Op '','',
     Name ''how'', Op ''='', StringLit ''left_anti'', Op '')'', Op ''.'', Name ''show'',
     Op ''('', Op '')'']]\<close>
  by code_simp

lemma statements_joins_in_11:
  \<open>statements joins_in_11 =
   [[Name ''person'', Op ''.'', Name ''crossJoin'', Op ''('', Name ''graduateProgram'',
     Op '')'', Op ''.'', Name ''show'', Op ''('', Op '')'']]\<close>
  by code_simp

lemma statements_joins_in_12:
  \<open>statements joins_in_12 =
   [[Name ''gradProgramDupe'', Op ''='', Name ''graduateProgram'', Op ''.'',
     Name ''withColumnRenamed'', Op ''('', StringLit ''id'', Op '','',
     StringLit ''graduate_program'', Op '')''],
    [Name ''df'', Op ''='', Name ''person'', Op ''.'', Name ''join'', Op ''('',
     Name ''gradProgramDupe'', Op '','', Name ''on'', Op ''='', Name ''person'', Op ''['',
     StringLit ''graduate_program'', Op '']'', Op ''=='', Name ''gradProgramDupe'', Op ''['',
     StringLit ''graduate_program'', Op '']'', Op '','', Name ''how'', Op ''='',
     StringLit ''inner'', Op '')''],
    [Name ''df'', Op ''.'', Name ''show'', Op ''('', Op '')'']]\<close>
  by code_simp

lemma statements_joins_in_13:
  \<open>statements joins_in_13 =
   [[Name ''person'', Op ''.'', Name ''join'', Op ''('', Name ''gradProgramDupe'', Op '','',
     StringLit ''graduate_program'', Op '')'', Op ''.'', Name ''show'', Op ''('', Op '')'']]\<close>
  by code_simp

lemma statements_joins_in_14:
  \<open>statements joins_in_14 =
   [[Name ''person'', Op ''.'', Name ''join'', Op ''('', Name ''gradProgramDupe'', Op '','',
     Name ''person'', Op ''['', StringLit ''graduate_program'', Op '']'', Op ''=='',
     Name ''gradProgramDupe'', Op ''['', StringLit ''graduate_program'', Op '']'', Op '')'',
     Op ''.'', Name ''drop'', Op ''('', Name ''person'', Op ''['',
     StringLit ''graduate_program'', Op '']'', Op '')'', Op ''.'', Name ''show'', Op ''('',
     Op '')'']]\<close>
  by code_simp

lemma statements_joins_in_15:
  \<open>statements joins_in_15 =
   [[Name ''gradProgram3'', Op ''='', Name ''graduateProgram'', Op ''.'',
     Name ''withColumnRenamed'', Op ''('', StringLit ''id'', Op '','', StringLit ''grad_id'',
     Op '')''],
    [Name ''person'', Op ''.'', Name ''join'', Op ''('', Name ''gradProgram3'', Op '','',
     Name ''person'', Op ''['', StringLit ''graduate_program'', Op '']'', Op ''=='',
     Name ''gradProgram3'', Op ''['', StringLit ''grad_id'', Op '']'', Op '')'', Op ''.'',
     Name ''show'', Op ''('', Op '')'']]\<close>
  by code_simp

lemma statements_joins_in_16:
  \<open>statements joins_in_16 =
   [[Name ''person'', Op ''.'', Name ''join'', Op ''('', Name ''graduateProgram'', Op '','',
     Name ''person'', Op ''['', StringLit ''graduate_program'', Op '']'', Op ''=='',
     Name ''graduateProgram'', Op ''['', StringLit ''id'', Op '']'', Op '')'', Op ''.'',
     Name ''explain'', Op ''('', Op '')'']]\<close>
  by code_simp

lemma statements_joins_in_17:
  \<open>statements joins_in_17 =
   [[Name ''from'', Name ''pyspark'', Op ''.'', Name ''sql'', Op ''.'', Name ''functions'',
     Name ''import'', Name ''broadcast''],
    [Name ''person'', Op ''.'', Name ''join'', Op ''('', Name ''broadcast'', Op ''('',
     Name ''graduateProgram'', Op '')'', Op '','', Name ''person'', Op ''['',
     StringLit ''graduate_program'', Op '']'', Op ''=='', Name ''graduateProgram'', Op ''['',
     StringLit ''id'', Op '']'', Op '')'', Op ''.'', Name ''explain'', Op ''('', Op '')'']]\<close>
  by code_simp

lemmas cell_statements =
  statements_sql_in_1 statements_sql_in_2 statements_sql_in_3 statements_sql_in_4
  statements_sql_in_5 statements_sql_in_6 statements_sql_in_7 statements_sql_in_8
  statements_sql_in_9 statements_sql_in_10 statements_sql_in_11 statements_sql_in_12
  statements_sql_in_13 statements_sql_in_14 statements_sql_in_15 statements_sql_in_16
  statements_sql_in_17 statements_sql_in_18 statements_sql_in_19 statements_sql_in_20
  statements_joins_in_1 statements_joins_in_2 statements_joins_in_3 statements_joins_in_4
  statements_joins_in_5 statements_joins_in_6 statements_joins_in_7 statements_joins_in_8
  statements_joins_in_9 statements_joins_in_10 statements_joins_in_11 statements_joins_in_12
  statements_joins_in_13 statements_joins_in_14 statements_joins_in_15
  statements_joins_in_16 statements_joins_in_17

subsection \<open>Calls and outputs of the cells\<close>

lemma calls_spark_sql:
  "map (calls \<circ> cell_tokens) (code_cells spark_sql_notebook) =
   [[''sql'', ''show''],
    [''hadoopConfiguration'', ''get'', ''json'', ''createOrReplaceTempView''],
    [''sql'', ''where'', ''where'', ''count''],
    [''sql''], [''sql'', ''show''], [''sql'', ''show''], [], [''listTables''],
    [''sql'', ''show''], [''listDatabases''], [''sql'', ''show''], [''listColumns''],
    [''listTables''], [''sql''], [''sql''], [''sql'', ''show''], [''sql''], [''sql''],
    [''sql''], [''sql'']]"
  by (simp add: code_cells_spark_sql cell_tokens_def cell_statements)

lemma calls_joins:
  "map (calls \<circ> cell_tokens) (code_cells joins_notebook) =
   [[''createDataFrame'', ''toDF'', ''createDataFrame'', ''toDF'', ''show'', ''show''],
    [''createOrReplaceTempView'', ''createOrReplaceTempView''],
    [],
    [''join'', ''show''], [''join'', ''show''], [''join'', ''show''], [''join'', ''show''],
    [''join'', ''show''], [''join'', ''show''], [''join'', ''show''], [''crossJoin'', ''show''],
    [''withColumnRenamed'', ''join'', ''show''], [''join'', ''show''],
    [''join'', ''drop'', ''show''], [''withColumnRenamed'', ''join'', ''show''],
    [''join'', ''explain''], [''join'', ''broadcast'', ''explain'']]"
  by (simp add: code_cells_joins cell_tokens_def cell_statements)

lemma cell_prints:
  "prints sql_in_1" "\<not> prints sql_in_2" "prints sql_in_3" "prints sql_in_4" "prints sql_in_5"
  "prints sql_in_6" "\<not> prints sql_in_7" "prints sql_in_8" "prints sql_in_9" "prints sql_in_10"
  "prints sql_in_11" "prints sql_in_12" "prints sql_in_13" "prints sql_in_14"
  "prints sql_in_15" "prints sql_in_16" "prints sql_in_17" "prints sql_in_18"
  "prints sql_in_19" "prints sql_in_20"
  "prints joins_in_1" "\<not> prints joins_in_2" "\<not> prints joins_in_3" "prints joins_in_4"
  "prints joins_in_5" "prints joins_in_6" "prints joins_in_7" "prints joins_in_8"
  "prints joins_in_9" "prints joins_in_10" "prints joins_in_11" "prints joins_in_12"
  "prints joins_in_13" "prints joins_in_14" "prints joins_in_15" "prints joins_in_16"
  "prints joins_in_17"
  by code_simp+

lemma cheat_sheet_commands:
  "commands =
   [[''gcloud'', ''beta'', ''dataproc'', ''clusters'', ''create'', ''mycluster'',
     ''--project'', ''<PROJECT-ID>'', ''--bucket'', ''<BUCKET-NAME>'',
     ''--optional-components=ANACONDA,JUPYTER'', ''--image-version=1.3'',
     ''--enable-component-gateway'', ''--region'', ''us-east1'', ''--zone'', ''us-east1-b'',
     ''--single-node'', ''--master-machine-type'', ''n1-highmem-2'',
     ''--master-boot-disk-size'', ''50''],
    [''gcloud'', ''beta'', ''dataproc'', ''clusters'', ''create'', ''mycluster'',
     ''--project'', ''<PROJECT-ID>'', ''--bucket'', ''<BUCKET-NAME>'',
     ''--optional-components=ANACONDA,JUPYTER'', ''--image-version=1.4'',
     ''--enable-component-gateway'', ''--region'', ''us-east1'', ''--zone'', ''us-east1-b'',
     ''--single-node'', ''--master-machine-type'', ''n1-highmem-2'',
     ''--master-boot-disk-size'', ''50''],
    [''gcloud'', ''compute'', ''ssh'', ''mycluster-m'', ''--zone'', ''us-east1-b'', ''--'',
     ''-L'', ''8080:localhost:8123''],
    [''localhost:8080''],
    [''gcloud'', ''dataproc'', ''clusters'', ''delete'', ''mycluster'', ''--region'',
     ''us-east1'']]"
  by code_simp

lemma create_cluster_words:
  "create_cluster =
    [''gcloud'', ''beta'', ''dataproc'', ''clusters'', ''create'', ''mycluster'',
     ''--project'', ''<PROJECT-ID>'', ''--bucket'', ''<BUCKET-NAME>'',
     ''--optional-components=ANACONDA,JUPYTER'', ''--image-version=1.3'',
     ''--enable-component-gateway'', ''--region'', ''us-east1'', ''--zone'', ''us-east1-b'',
     ''--single-node'', ''--master-machine-type'', ''n1-highmem-2'',
     ''--master-boot-disk-size'', ''50'']"
  "create_cluster_one_liner =
    [''gcloud'', ''beta'', ''dataproc'', ''clusters'', ''create'', ''mycluster'',
     ''--project'', ''<PROJECT-ID>'', ''--bucket'', ''<BUCKET-NAME>'',
     ''--optional-components=ANACONDA,JUPYTER'', ''--image-version=1.4'',
     ''--enable-component-gateway'', ''--region'', ''us-east1'', ''--zone'', ''us-east1-b'',
     ''--single-node'', ''--master-machine-type'', ''n1-highmem-2'',
     ''--master-boot-disk-size'', ''50'']"
  unfolding create_cluster_def create_cluster_one_liner_def cheat_sheet_commands by simp_all

lemma session_spark_sql:
  "session spark_sql_notebook = Some [''spark'', ''bucket'', ''data'', ''Cat'']"
  by (simp add: session_def kernels initial_names_def program_def code_cells_spark_sql
      cell_statements classify_def unbound_def python_constants_def)

lemma session_joins:
  "session joins_notebook =
   Some [''spark'', ''person'', ''graduateProgram'', ''joinExpression'', ''gradProgramDupe'',
         ''df'', ''gradProgram3'', ''broadcast'']"
  by (simp add: session_def kernels initial_names_def program_def code_cells_joins
      cell_statements classify_def unbound_def python_constants_def)

lemma cell_execution_counts:
  "execution_counts [sql_in_2] = [2]"
  "execution_counts [sql_in_16] = [16]"
  "execution_counts [sql_in_17] = [17]"
  "execution_counts [sql_in_16, sql_in_17, sql_in_18] = [16, 17, 18]"
  "execution_counts [sql_in_4] = [4]"
  "execution_counts [sql_in_18, sql_in_20] = [18, 20]"
  by code_simp+

subsection \<open>What the cells invoke\<close>

lemma invocations_spark_sql:
  "map invocations (code_cells spark_sql_notebook) =
   [[Method (Name ''spark'') [] ''sql'',
     Method (Name ''spark'') [''sql''] ''show''],
    [Method (Name ''spark'') [''_jsc''] ''hadoopConfiguration'',
     Method (Name ''spark'') [''_jsc'', ''hadoopConfiguration''] ''get'',
     Operation ''+'' (Some (StringLit ''gs://'')) (Some (Name ''bucket'')),
     Operation ''+'' (Some (Name ''bucket'')) (Some (StringLit ''/notebooks/data/'')),
     Method (Name ''spark'') [''read''] ''json'',
     Operation ''+'' (Some (Name ''data'')) (Some (StringLit ''flight-data/json/2015-summary.json'')),
     Method (Name ''spark'') [''read'', ''json''] ''createOrReplaceTempView''],
    [Method (Name ''spark'') [] ''sql'',
     Method (Name ''spark'') [''sql''] ''where'',
     Method (Name ''spark'') [''sql'', ''where''] ''where'',
     Method (Name ''spark'') [''sql'', ''where'', ''where''] ''count''],
    [Method (Name ''spark'') [] ''sql''],
    [Method (Name ''spark'') [] ''sql'',
     Method (Name ''spark'') [''sql''] ''show''],
    [Method (Name ''spark'') [] ''sql'',
     Method (Name ''spark'') [''sql''] ''show''],
    [],
    [Method (Name ''Cat'') [] ''listTables''],
    [Method (Name ''spark'') [] ''sql'',
     Method (Name ''spark'') [''sql''] ''show''],
    [Method (Name ''Cat'') [] ''listDatabases''],
    [Method (Name ''spark'') [] ''sql'',
     Method (Name ''spark'') [''sql''] ''show''],
    [Method (Name ''Cat'') [] ''listColumns''],
    [Method (Name ''Cat'') [] ''listTables''],
    [Method (Name ''spark'') [] ''sql''],
    [Method (Name ''spark'') [] ''sql''],
    [Method (Name ''spark'') [] ''sql'',
     Method (Name ''spark'') [''sql''] ''show''],
    [Method (Name ''spark'') [] ''sql''],
    [Method (Name ''spark'') [] ''sql''],
    [Method (Name ''spark'') [] ''sql''],
    [Method (Name ''spark'') [] ''sql'']]"
  by (simp add: code_cells_spark_sql invocations_def cell_statements)

lemma invocations_joins:
  "map invocations (code_cells joins_notebook) =
   [[Method (Name ''spark'') [] ''createDataFrame'',
     Method (Name ''spark'') [''createDataFrame''] ''toDF'',
     Method (Name ''spark'') [] ''createDataFrame'',
     Method (Name ''spark'') [''createDataFrame''] ''toDF'',
     Method (Name ''person'') [] ''show'',
     Method (Name ''graduateProgram'') [] ''show''],
    [Method (Name ''person'') [] ''createOrReplaceTempView'',
     Method (Name ''graduateProgram'') [] ''createOrReplaceTempView''],
    [Subscript (Name ''person'') [],
     Operation ''=='' (Some (Name ''person'')) (Some (Name ''graduateProgram'')),
     Subscript (Name ''graduateProgram'') []],
    [Method (Name ''person'') [] ''join'',
     Method (Name ''person'') [''join''] ''show''],
    [Method (Name ''person'') [] ''join'',
     Subscript (Name ''person'') [],
     Operation ''=='' (Some (Name ''person'')) (Some (Name ''graduateProgram'')),
     Subscript (Name ''graduateProgram'') [],
     Method (Name ''person'') [''join''] ''show''],
    [Method (Name ''person'') [] ''join'',
     Subscript (Name ''person'') [],
     Operation ''=='' (Some (Name ''person'')) (Some (Name ''graduateProgram'')),
     Subscript (Name ''graduateProgram'') [],
     Method (Name ''person'') [''join''] ''show''],
    [Method (Name ''graduateProgram'') [] ''join'',
     Subscript (Name ''person'') [],
     Operation ''=='' (Some (Name ''person'')) (Some (Name ''graduateProgram'')),
     Subscript (Name ''graduateProgram'') [],
     Method (Name ''graduateProgram'') [''join''] ''show''],
    [Method (Name ''person'') [] ''join'',
     Subscript (Name ''person'') [],
     Operation ''=='' (Some (Name ''person'')) (Some (Name ''graduateProgram'')),
     Subscript (Name ''graduateProgram'') [],
     Method (Name ''person'') [''join''] ''show''],
    [Method (Name ''graduateProgram'') [] ''join'',
     Subscript (Name ''person'') [],
     Operation ''=='' (Some (Name ''person'')) (Some (Name ''graduateProgram'')),
     Subscript (Name ''graduateProgram'') [],
     Method (Name ''graduateProgram'') [''join''] ''show''],
    [Method (Name ''graduateProgram'') [] ''join'',
     Subscript (Name ''person'') [],
     Operation ''=='' (Some (Name ''person'')) (Some (Name ''graduateProgram'')),
     Subscript (Name ''graduateProgram'') [],
     Method (Name ''graduateProgram'') [''join''] ''show''],
    [Method (Name ''person'') [] ''crossJoin'',
     Method (Name ''person'') [''crossJoin''] ''show''],
    [Method (Name ''graduateProgram'') [] ''withColumnRenamed'',
     Method (Name ''person'') [] ''join'',
     Subscript (Name ''person'') [],
     Operation ''=='' (Some (Name ''person'')) (Some (Name ''gradProgramDupe'')),
     Subscript (Name ''gradProgramDupe'') [],
     Method (Name ''df'') [] ''show''],
    [Method (Name ''person'') [] ''join'',
     Method (Name ''person'') [''join''] ''show''],
    [Method (Name ''person'') [] ''join'',
     Subscript (Name ''person'') [],
     Operation ''=='' (Some (Name ''person'')) (Some (Name ''gradProgramDupe'')),
     Subscript (Name ''gradProgramDupe'') [],
     Method (Name ''person'') [''join''] ''drop'',
     Subscript (Name ''person'') [],
     Method (Name ''person'') [''join'', ''drop''] ''show''],
    [Method (Name ''graduateProgram'') [] ''withColumnRenamed'',
     Method (Name ''person'') [] ''join'',
     Subscript (Name ''person'') [],
     Operation ''=='' (Some (Name ''person'')) (Some (Name ''gradProgram3'')),
     Subscript (Name ''gradProgram3'') [],
     Method (Name ''person'') [''join''] ''show''],
    [Method (Name ''person'') [] ''join'',
     Subscript (Name ''person'') [],
     Operation ''=='' (Some (Name ''person'')) (Some (Name ''graduateProgram'')),
     Subscript (Name ''graduateProgram'') [],
     Method (Name ''person'') [''join''] ''explain''],
    [Method (Name ''person'') [] ''join'',
     Function ''broadcast'',
     Subscript (Name ''person'') [],
     Operation ''=='' (Some (Name ''person'')) (Some (Name ''graduateProgram'')),
     Subscript (Name ''graduateProgram'') [],
     Method (Name ''person'') [''join''] ''explain'']]"
  by (simp add: code_cells_joins invocations_def cell_statements)

lemma engine_objects_notebooks:
  "engine_objects spark_sql_notebook = [''spark'', ''Cat'']"
  "engine_objects joins_notebook =
     [''spark'', ''person'', ''graduateProgram'', ''joinExpression'', ''gradProgramDupe'', ''df'',
      ''gradProgram3'', ''broadcast'']"
  by (simp_all add: engine_objects_def kernels initial_names_def program_def
      code_cells_spark_sql code_cells_joins cell_statements classify_def produced_by_engine_def)

subsection \<open>The source of the join cells\<close>

text \<open>
  The first code cell of the joins notebook creates the two datasets from the literal rows
  and column names of \<open>person\<close> and \<open>graduateProgram\<close> and shows them; cell 3 binds
  \<^verbatim>\<open>joinExpression\<close> to the key equality; cells 4 to 10 join the two datasets on it, and
  cell 11 is the cross join.
\<close>

lemma datasets_source:
  "statements joins_in_1 =
     [createDataFrame_statement ''person'' person,
      createDataFrame_statement ''graduateProgram'' graduateProgram,
      method_call [Name ''person''] ''show'' [],
      method_call [Name ''graduateProgram''] ''show'' []]"
  "statements joins_in_3 = [[Name ''joinExpression'', Op ''=''] @ key_equality]"
  unfolding statements_joins_in_1 statements_joins_in_3 by code_simp+

lemma join_cells_source:
  "statements joins_in_4 =
     [method_call (method_call [Name ''person''] ''join''
        [Name ''graduateProgram'', Op '','', Name ''joinExpression'']) ''show'' []]"
  "statements joins_in_5 = [join_statement ''person'' ''graduateProgram'' ''inner'' ''show'']"
  "statements joins_in_6 = [join_statement ''person'' ''graduateProgram'' ''outer'' ''show'']"
  "statements joins_in_7 = [join_statement ''graduateProgram'' ''person'' ''left_outer'' ''show'']"
  "statements joins_in_8 = [join_statement ''person'' ''graduateProgram'' ''right_outer'' ''show'']"
  "statements joins_in_9 = [join_statement ''graduateProgram'' ''person'' ''left_semi'' ''show'']"
  "statements joins_in_10 = [join_statement ''graduateProgram'' ''person'' ''left_anti'' ''show'']"
  "statements joins_in_11 =
     [method_call (method_call [Name ''person''] ''crossJoin'' [Name ''graduateProgram''])
        ''show'' []]"
  unfolding cell_statements by code_simp+

lemma explain_cells_source:
  "statements joins_in_16 =
     [method_call (method_call [Name ''person''] ''join''
        ([Name ''graduateProgram'', Op '',''] @ key_equality)) ''explain'' []]"
  "statements joins_in_17 =
     [[Name ''from'', Name ''pyspark'', Op ''.'', Name ''sql'', Op ''.'', Name ''functions'',
       Name ''import'', Name ''broadcast''],
      method_call (method_call [Name ''person''] ''join''
        (function_call ''broadcast'' [Name ''graduateProgram''] @ [Op '',''] @ key_equality))
        ''explain'' []]"
  unfolding cell_statements by code_simp+

text \<open>What the join cells display.\<close>

lemma datasets_shown: "shown_tables joins_in_1 = [shown person, shown graduateProgram]"
  by code_simp

lemma inner_join_shown:
  "shows_exactly joins_in_4 (join person graduateProgram joinExpression Inner)"
  "shows_exactly joins_in_5 (join person graduateProgram joinExpression Inner)"
  by code_simp+

lemma outer_join_shown:
  "shows_exactly joins_in_6 (join person graduateProgram joinExpression Outer)"
  by code_simp

lemma left_outer_join_shown:
  "shows_exactly joins_in_7 (join graduateProgram person (\<lambda>g p. joinExpression p g) LeftOuter)"
  by code_simp

lemma right_outer_join_shown:
  "shows_exactly joins_in_8 (join person graduateProgram joinExpression RightOuter)"
  by code_simp

lemma semi_join_shown:
  "shows_exactly joins_in_9 (join graduateProgram person (\<lambda>g p. joinExpression p g) LeftSemi)"
  by code_simp

lemma anti_join_shown:
  "shows_exactly joins_in_10 (join graduateProgram person (\<lambda>g p. joinExpression p g) LeftAnti)"
  by code_simp

lemma cross_join_shown:
  "shows_exactly joins_in_11 (crossJoin person graduateProgram)"
  by code_simp

lemma key_equality_sides:
  "key_equality_on ''person'' = joinExpression"
  "key_equality_on ''graduateProgram'' = (\<lambda>g p. joinExpression p g)"
  by (simp_all add: key_equality_on_def fun_eq_iff)

lemma run_join_cells:
  "run_join ''person'' ''graduateProgram'' ''inner''
     = Some (join person graduateProgram joinExpression Inner)"
  "run_join ''person'' ''graduateProgram'' ''outer''
     = Some (join person graduateProgram joinExpression Outer)"
  "run_join ''graduateProgram'' ''person'' ''left_outer''
     = Some (join graduateProgram person (\<lambda>g p. joinExpression p g) LeftOuter)"
  "run_join ''person'' ''graduateProgram'' ''right_outer''
     = Some (join person graduateProgram joinExpression RightOuter)"
  "run_join ''graduateProgram'' ''person'' ''left_semi''
     = Some (join graduateProgram person (\<lambda>g p. joinExpression p g) LeftSemi)"
  "run_join ''graduateProgram'' ''person'' ''left_anti''
     = Some (join graduateProgram person (\<lambda>g p. joinExpression p g) LeftAnti)"
  by (simp_all add: run_join_def dataset_def join_type_of_def key_equality_sides)

lemma shows_join_cells:
  "shows_join joins_in_5 ''person'' ''graduateProgram'' ''inner''"
  "shows_join joins_in_6 ''person'' ''graduateProgram'' ''outer''"
  "shows_join joins_in_7 ''graduateProgram'' ''person'' ''left_outer''"
  "shows_join joins_in_8 ''person'' ''graduateProgram'' ''right_outer''"
  "shows_join joins_in_9 ''graduateProgram'' ''person'' ''left_semi''"
  "shows_join joins_in_10 ''graduateProgram'' ''person'' ''left_anti''"
  using inner_join_shown(2) outer_join_shown left_outer_join_shown right_outer_join_shown
    semi_join_shown anti_join_shown
  by (simp_all only: shows_join_def join_cells_source run_join_cells option.case simp_thms)

lemma length_cross_pairs: "length (cross_pairs ls rs) = length ls * length rs"
  by (induction ls) (simp_all add: cross_pairs_def)

subsection \<open>Execution order\<close>

text \<open>
  C6. In each notebook the recorded execution counts of the code cells, read in document
  order, are the consecutive integers from 1: \<open>1, \<dots>, 20\<close> in the Spark-SQL notebook
  and \<open>1, \<dots>, 17\<close> in the joins notebook. There is no gap, repeat or reordering.
\<close>

theorem execution_counts_sequential:
  "execution_counts (cells spark_sql_notebook) = [1..<21] \<and>
   execution_counts (cells joins_notebook) = [1..<18]"
  by code_simp

subsection \<open>What the cells do\<close>

text \<open>
  C1, as the specification states it: every code cell calls a single library method and
  prints the result. The third code cell of the Spark-SQL notebook chains four library
  methods (\<^verbatim>\<open>sql\<close>, \<^verbatim>\<open>where\<close>, \<^verbatim>\<open>where\<close>, \<^verbatim>\<open>count\<close>) in one expression, so the
  statement does not hold of it.
\<close>

theorem chained_calls_in_one_cell:
  "sql_in_3 \<in> set (code_cells spark_sql_notebook) \<and>
   library_calls sql_in_3 = [''sql'', ''where'', ''where'', ''count''] \<and>
   \<not> single_call_printed sql_in_3"
  by (simp add: code_cells_spark_sql single_call_printed_def library_calls_def cell_tokens_def
      statements_sql_in_3 printing_methods_def)

text \<open>
  C1, amended. The library calls of every code cell, \<^verbatim>\<open>show\<close> and \<^verbatim>\<open>explain\<close> left
  out, are those listed: between none and four per cell. 27 of the 37 code cells call a single
  library method and print the result; the others are cells 2, 3 and 7 of the Spark-SQL
  notebook and cells 1, 2, 3, 12, 14, 15 and 17 of the joins notebook. The cells that
  print nothing are cells 2 and 7 of the Spark-SQL notebook and cells 2 and 3 of the joins
  notebook, and each statement of these binds a name or registers a temporary view. Every
  entry of the cheat sheet is a \<^verbatim>\<open>gcloud\<close> command, except the address
  \<^verbatim>\<open>localhost:8080\<close> under which the notebook server is opened.
\<close>

theorem library_calls_of_the_cells:
  "map library_calls (code_cells spark_sql_notebook) =
     [[''sql''], [''hadoopConfiguration'', ''get'', ''json'', ''createOrReplaceTempView''],
      [''sql'', ''where'', ''where'', ''count''], [''sql''], [''sql''], [''sql''], [],
      [''listTables''], [''sql''], [''listDatabases''], [''sql''], [''listColumns''],
      [''listTables''], [''sql''], [''sql''], [''sql''], [''sql''], [''sql''], [''sql''],
      [''sql'']] \<and>
   map library_calls (code_cells joins_notebook) =
     [[''createDataFrame'', ''toDF'', ''createDataFrame'', ''toDF''],
      [''createOrReplaceTempView'', ''createOrReplaceTempView''], [],
      [''join''], [''join''], [''join''], [''join''], [''join''], [''join''], [''join''],
      [''crossJoin''], [''withColumnRenamed'', ''join''], [''join''], [''join'', ''drop''],
      [''withColumnRenamed'', ''join''], [''join''], [''join'', ''broadcast'']] \<and>
   execution_counts (filter (\<lambda>c. \<not> single_call_printed c) (code_cells spark_sql_notebook))
     = [2, 3, 7] \<and>
   execution_counts (filter (\<lambda>c. \<not> single_call_printed c) (code_cells joins_notebook))
     = [1, 2, 3, 12, 14, 15, 17] \<and>
   execution_counts (filter (\<lambda>c. \<not> prints c) (code_cells spark_sql_notebook)) = [2, 7] \<and>
   execution_counts (filter (\<lambda>c. \<not> prints c) (code_cells joins_notebook)) = [2, 3] \<and>
   list_all binds_or_registers
     (filter (\<lambda>c. \<not> prints c) (code_cells spark_sql_notebook @ code_cells joins_notebook)) \<and>
   map (take 1) commands =
     [[''gcloud''], [''gcloud''], [''gcloud''], [''localhost:8080''], [''gcloud'']]"
proof -
  note calls = calls_spark_sql calls_joins
  have lib_sql: "map library_calls (code_cells spark_sql_notebook) =
     [[''sql''], [''hadoopConfiguration'', ''get'', ''json'', ''createOrReplaceTempView''],
      [''sql'', ''where'', ''where'', ''count''], [''sql''], [''sql''], [''sql''], [],
      [''listTables''], [''sql''], [''listDatabases''], [''sql''], [''listColumns''],
      [''listTables''], [''sql''], [''sql''], [''sql''], [''sql''], [''sql''], [''sql''],
      [''sql'']]"
    using calls_spark_sql
    by (simp add: code_cells_spark_sql library_calls_def printing_methods_def)
  have lib_joins: "map library_calls (code_cells joins_notebook) =
     [[''createDataFrame'', ''toDF'', ''createDataFrame'', ''toDF''],
      [''createOrReplaceTempView'', ''createOrReplaceTempView''], [],
      [''join''], [''join''], [''join''], [''join''], [''join''], [''join''], [''join''],
      [''crossJoin''], [''withColumnRenamed'', ''join''], [''join''], [''join'', ''drop''],
      [''withColumnRenamed'', ''join''], [''join''], [''join'', ''broadcast'']]"
    using calls_joins
    by (simp add: code_cells_joins library_calls_def printing_methods_def)
  have not_single_sql:
    "filter (\<lambda>c. \<not> single_call_printed c) (code_cells spark_sql_notebook)
       = [sql_in_2, sql_in_3, sql_in_7]"
    using lib_sql by (simp add: code_cells_spark_sql single_call_printed_def cell_prints)
  have not_single_joins:
    "filter (\<lambda>c. \<not> single_call_printed c) (code_cells joins_notebook)
       = [joins_in_1, joins_in_2, joins_in_3, joins_in_12, joins_in_14, joins_in_15, joins_in_17]"
    using lib_joins by (simp add: code_cells_joins single_call_printed_def cell_prints)
  have silent_sql:
    "filter (\<lambda>c. \<not> prints c) (code_cells spark_sql_notebook) = [sql_in_2, sql_in_7]"
    by (simp add: code_cells_spark_sql cell_prints)
  have silent_joins:
    "filter (\<lambda>c. \<not> prints c) (code_cells joins_notebook) = [joins_in_2, joins_in_3]"
    by (simp add: code_cells_joins cell_prints)
  have quiet: "list_all binds_or_registers [sql_in_2, sql_in_7, joins_in_2, joins_in_3]"
    by (simp add: binds_or_registers_def classify_def registers_view_def statements_sql_in_2
        statements_sql_in_7 statements_joins_in_2 statements_joins_in_3)
  have counts:
    "execution_counts [sql_in_2, sql_in_3, sql_in_7] = [2, 3, 7]"
    "execution_counts [joins_in_1, joins_in_2, joins_in_3, joins_in_12, joins_in_14,
       joins_in_15, joins_in_17] = [1, 2, 3, 12, 14, 15, 17]"
    "execution_counts [sql_in_2, sql_in_7] = [2, 7]"
    "execution_counts [joins_in_2, joins_in_3] = [2, 3]"
    by code_simp+
  have sheet: "map (take 1) commands =
     [[''gcloud''], [''gcloud''], [''gcloud''], [''localhost:8080''], [''gcloud'']]"
    unfolding cheat_sheet_commands by simp
  show ?thesis
    using lib_sql lib_joins quiet sheet
    by (simp only: not_single_sql not_single_joins silent_sql silent_joins counts filter_append
        append.simps simp_thms)
qed

subsection \<open>The interfaces the cells use\<close>

text \<open>
  C3, as the specification states it: no code cell uses anything but the engine's public
  query and catalog interface, in particular no non-public internals of the engine and no
  direct access to cloud storage. The second code cell of the Spark-SQL notebook reads the
  private attribute \<^verbatim>\<open>_jsc\<close> of the session and builds an address in the \<^verbatim>\<open>gs://\<close>
  scheme, from which it reads its data.
\<close>

theorem private_attribute_and_storage_address:
  "sql_in_2 \<in> set (code_cells spark_sql_notebook) \<and>
   private_attributes sql_in_2 = [''_jsc''] \<and>
   storage_addresses sql_in_2 = [''gs://''] \<and>
   \<not> public_engine_api_only sql_in_2"
  by (simp add: code_cells_spark_sql public_engine_api_only_def private_attributes_def
      storage_addresses_def cell_tokens_def statements_sql_in_2)

text \<open>
  C3, amended. Cell 2 of the Spark-SQL notebook is the only code cell that reads a private
  attribute of the engine or addresses cloud storage; every other code cell of both
  notebooks uses public attributes and methods only. In both notebooks every statement reads
  only names that go back to the session object \<^verbatim>\<open>spark\<close> or to an import from
  \<^verbatim>\<open>pyspark\<close>. The entries of the cheat sheet are, in this order, two \<^verbatim>\<open>gcloud\<close>
  commands that create the cluster \<^verbatim>\<open>mycluster\<close>, the \<^verbatim>\<open>gcloud\<close> command that opens
  the SSH tunnel, the address of the notebook server, and the \<^verbatim>\<open>gcloud\<close> command that
  deletes the cluster; the project and the bucket are placeholders.
\<close>

theorem boundary_surfaces:
  "execution_counts (filter (\<lambda>c. \<not> public_engine_api_only c) (code_cells spark_sql_notebook))
     = [2] \<and>
   filter (\<lambda>c. \<not> public_engine_api_only c) (code_cells joins_notebook) = [] \<and>
   session spark_sql_notebook = Some [''spark'', ''bucket'', ''data'', ''Cat''] \<and>
   session joins_notebook =
     Some [''spark'', ''person'', ''graduateProgram'', ''joinExpression'', ''gradProgramDupe'',
           ''df'', ''gradProgram3'', ''broadcast''] \<and>
   map positionals commands =
     [[''gcloud'', ''beta'', ''dataproc'', ''clusters'', ''create'', ''mycluster''],
      [''gcloud'', ''beta'', ''dataproc'', ''clusters'', ''create'', ''mycluster''],
      [''gcloud'', ''compute'', ''ssh'', ''mycluster-m'', ''--'', ''-L'', ''8080:localhost:8123''],
      [''localhost:8080''],
      [''gcloud'', ''dataproc'', ''clusters'', ''delete'', ''mycluster'']] \<and>
   map_of (flags create_cluster) ''--project'' = Some (Some ''<PROJECT-ID>'') \<and>
   map_of (flags create_cluster) ''--bucket'' = Some (Some ''<BUCKET-NAME>'')"
proof -
  have other_sql:
    "filter (\<lambda>c. \<not> public_engine_api_only c) (code_cells spark_sql_notebook) = [sql_in_2]"
    by (simp add: code_cells_spark_sql public_engine_api_only_def private_attributes_def
        storage_addresses_def cell_tokens_def cell_statements)
  have other_joins:
    "filter (\<lambda>c. \<not> public_engine_api_only c) (code_cells joins_notebook) = []"
    by (simp add: code_cells_joins public_engine_api_only_def private_attributes_def
        storage_addresses_def cell_tokens_def cell_statements)
  have sheet: "map positionals commands =
     [[''gcloud'', ''beta'', ''dataproc'', ''clusters'', ''create'', ''mycluster''],
      [''gcloud'', ''beta'', ''dataproc'', ''clusters'', ''create'', ''mycluster''],
      [''gcloud'', ''compute'', ''ssh'', ''mycluster-m'', ''--'', ''-L'', ''8080:localhost:8123''],
      [''localhost:8080''],
      [''gcloud'', ''dataproc'', ''clusters'', ''delete'', ''mycluster'']]"
    unfolding cheat_sheet_commands by (simp add: is_flag_def)
  have placeholders:
    "map_of (flags create_cluster) ''--project'' = Some (Some ''<PROJECT-ID>'')"
    "map_of (flags create_cluster) ''--bucket'' = Some (Some ''<BUCKET-NAME>'')"
    unfolding create_cluster_words by code_simp+
  show ?thesis
    using other_joins session_spark_sql session_joins sheet placeholders
    by (simp only: other_sql cell_execution_counts simp_thms)
qed

subsection \<open>Nothing is defined, everything is invoked\<close>

text \<open>
  C5, as the specification states it: every code cell only invokes methods of the engine's
  interface, on literal data or on objects that such invocations produced. The second code
  cell of the Spark-SQL notebook does more. It calls \<^verbatim>\<open>hadoopConfiguration().get\<close>
  through the private attribute \<^verbatim>\<open>_jsc\<close> of the session, which binds \<^verbatim>\<open>bucket\<close>
  to a Python string; it concatenates Python strings with \<^verbatim>\<open>+\<close>, starting from the
  literal \<^verbatim>\<open>gs://\<close>; and it passes the string so built to \<^verbatim>\<open>spark.read.json\<close>. Five
  of its seven invocations are foreign to the engine's interface, and the names
  \<^verbatim>\<open>bucket\<close> and \<^verbatim>\<open>data\<close> that it reads stand for no object of the engine.
\<close>

theorem cell_invokes_more_than_the_engine:
  "sql_in_2 \<in> set (code_cells spark_sql_notebook) \<and>
   invocations sql_in_2 =
     [Method (Name ''spark'') [''_jsc''] ''hadoopConfiguration'',
      Method (Name ''spark'') [''_jsc'', ''hadoopConfiguration''] ''get'',
      Operation ''+'' (Some (StringLit ''gs://'')) (Some (Name ''bucket'')),
      Operation ''+'' (Some (Name ''bucket'')) (Some (StringLit ''/notebooks/data/'')),
      Method (Name ''spark'') [''read''] ''json'',
      Operation ''+'' (Some (Name ''data'')) (Some (StringLit ''flight-data/json/2015-summary.json'')),
      Method (Name ''spark'') [''read'', ''json''] ''createOrReplaceTempView''] \<and>
   filter (foreign (engine_objects spark_sql_notebook)) (invocations sql_in_2) =
     [Method (Name ''spark'') [''_jsc''] ''hadoopConfiguration'',
      Method (Name ''spark'') [''_jsc'', ''hadoopConfiguration''] ''get'',
      Operation ''+'' (Some (StringLit ''gs://'')) (Some (Name ''bucket'')),
      Operation ''+'' (Some (Name ''bucket'')) (Some (StringLit ''/notebooks/data/'')),
      Operation ''+'' (Some (Name ''data'')) (Some (StringLit ''flight-data/json/2015-summary.json''))] \<and>
   other_names (engine_objects spark_sql_notebook) sql_in_2 = [''bucket'', ''data''] \<and>
   leaves_engine (engine_objects spark_sql_notebook) sql_in_2"
  by (simp add: code_cells_spark_sql engine_objects_notebooks leaves_engine_def
      other_names_def python_constants_def classify_def invocations_def statements_sql_in_2)

text \<open>
  C5, amended. No code cell of either notebook defines a function or a class (\<^verbatim>\<open>def\<close>,
  \<^verbatim>\<open>class\<close>, \<^verbatim>\<open>lambda\<close>, a decorator), registers a user-defined function with the
  engine (by one of its registering methods, or by SQL text that holds the word
  \<^verbatim>\<open>FUNCTION\<close>), branches or loops. Every statement reads only names that the session
  has bound before, and the only import is that of \<^verbatim>\<open>broadcast\<close> from
  \<^verbatim>\<open>pyspark.sql.functions\<close>. What the cells invoke is listed cell by cell: the methods
  \<^verbatim>\<open>sql\<close>, \<^verbatim>\<open>show\<close>, \<^verbatim>\<open>where\<close>, \<^verbatim>\<open>count\<close>, \<^verbatim>\<open>json\<close>,
  \<^verbatim>\<open>createOrReplaceTempView\<close>, \<^verbatim>\<open>listTables\<close>, \<^verbatim>\<open>listDatabases\<close>,
  \<^verbatim>\<open>listColumns\<close>, \<^verbatim>\<open>createDataFrame\<close>, \<^verbatim>\<open>toDF\<close>, \<^verbatim>\<open>join\<close>, \<^verbatim>\<open>crossJoin\<close>,
  \<^verbatim>\<open>withColumnRenamed\<close>, \<^verbatim>\<open>drop\<close> and \<^verbatim>\<open>explain\<close>, the function
  \<^verbatim>\<open>broadcast\<close>, subscripts of datasets and the equality of two of their columns; and,
  in cell 2 of the Spark-SQL notebook only, \<^verbatim>\<open>hadoopConfiguration\<close> and \<^verbatim>\<open>get\<close>
  behind the private \<^verbatim>\<open>_jsc\<close>, and \<^verbatim>\<open>+\<close> on strings. The names that stand for
  objects of the engine are \<^verbatim>\<open>spark\<close>, the names bound to what its public attributes
  and methods give (and, from these, joins, renamings and column equalities), and
  \<^verbatim>\<open>broadcast\<close>. Cell 2 of the Spark-SQL notebook is the only code cell that leaves
  the engine's interface: in every other cell each invocation is a public method, a
  subscript or an equality on an object of the engine, or the engine's function, and each
  argument is a literal or an object of the engine.
\<close>

theorem invocations_of_the_cells:
  "filter defines_something (code_cells spark_sql_notebook) = [] \<and>
   filter defines_something (code_cells joins_notebook) = [] \<and>
   filter (sql_mentions ''FUNCTION'') (code_cells spark_sql_notebook) = [] \<and>
   filter (sql_mentions ''FUNCTION'') (code_cells joins_notebook) = [] \<and>
   filter has_control_flow (code_cells spark_sql_notebook) = [] \<and>
   filter has_control_flow (code_cells joins_notebook) = [] \<and>
   session spark_sql_notebook = Some [''spark'', ''bucket'', ''data'', ''Cat''] \<and>
   session joins_notebook =
     Some [''spark'', ''person'', ''graduateProgram'', ''joinExpression'', ''gradProgramDupe'',
           ''df'', ''gradProgram3'', ''broadcast''] \<and>
   filter is_import (program spark_sql_notebook) = [] \<and>
   filter is_import (program joins_notebook) =
     [Import [''pyspark'', ''sql'', ''functions''] [''broadcast'']] \<and>
   map invocations (code_cells spark_sql_notebook) =
   [[Method (Name ''spark'') [] ''sql'',
     Method (Name ''spark'') [''sql''] ''show''],
    [Method (Name ''spark'') [''_jsc''] ''hadoopConfiguration'',
     Method (Name ''spark'') [''_jsc'', ''hadoopConfiguration''] ''get'',
     Operation ''+'' (Some (StringLit ''gs://'')) (Some (Name ''bucket'')),
     Operation ''+'' (Some (Name ''bucket'')) (Some (StringLit ''/notebooks/data/'')),
     Method (Name ''spark'') [''read''] ''json'',
     Operation ''+'' (Some (Name ''data'')) (Some (StringLit ''flight-data/json/2015-summary.json'')),
     Method (Name ''spark'') [''read'', ''json''] ''createOrReplaceTempView''],
    [Method (Name ''spark'') [] ''sql'',
     Method (Name ''spark'') [''sql''] ''where'',
     Method (Name ''spark'') [''sql'', ''where''] ''where'',
     Method (Name ''spark'') [''sql'', ''where'', ''where''] ''count''],
    [Method (Name ''spark'') [] ''sql''],
    [Method (Name ''spark'') [] ''sql'',
     Method (Name ''spark'') [''sql''] ''show''],
    [Method (Name ''spark'') [] ''sql'',
     Method (Name ''spark'') [''sql''] ''show''],
    [],
    [Method (Name ''Cat'') [] ''listTables''],
    [Method (Name ''spark'') [] ''sql'',
     Method (Name ''spark'') [''sql''] ''show''],
    [Method (Name ''Cat'') [] ''listDatabases''],
    [Method (Name ''spark'') [] ''sql'',
     Method (Name ''spark'') [''sql''] ''show''],
    [Method (Name ''Cat'') [] ''listColumns''],
    [Method (Name ''Cat'') [] ''listTables''],
    [Method (Name ''spark'') [] ''sql''],
    [Method (Name ''spark'') [] ''sql''],
    [Method (Name ''spark'') [] ''sql'',
     Method (Name ''spark'') [''sql''] ''show''],
    [Method (Name ''spark'') [] ''sql''],
    [Method (Name ''spark'') [] ''sql''],
    [Method (Name ''spark'') [] ''sql''],
    [Method (Name ''spark'') [] ''sql'']] \<and>
   map invocations (code_cells joins_notebook) =
   [[Method (Name ''spark'') [] ''createDataFrame'',
     Method (Name ''spark'') [''createDataFrame''] ''toDF'',
     Method (Name ''spark'') [] ''createDataFrame'',
     Method (Name ''spark'') [''createDataFrame''] ''toDF'',
     Method (Name ''person'') [] ''show'',
     Method (Name ''graduateProgram'') [] ''show''],
    [Method (Name ''person'') [] ''createOrReplaceTempView'',
     Method (Name ''graduateProgram'') [] ''createOrReplaceTempView''],
    [Subscript (Name ''person'') [],
     Operation ''=='' (Some (Name ''person'')) (Some (Name ''graduateProgram'')),
     Subscript (Name ''graduateProgram'') []],
    [Method (Name ''person'') [] ''join'',
     Method (Name ''person'') [''join''] ''show''],
    [Method (Name ''person'') [] ''join'',
     Subscript (Name ''person'') [],
     Operation ''=='' (Some (Name ''person'')) (Some (Name ''graduateProgram'')),
     Subscript (Name ''graduateProgram'') [],
     Method (Name ''person'') [''join''] ''show''],
    [Method (Name ''person'') [] ''join'',
     Subscript (Name ''person'') [],
     Operation ''=='' (Some (Name ''person'')) (Some (Name ''graduateProgram'')),
     Subscript (Name ''graduateProgram'') [],
     Method (Name ''person'') [''join''] ''show''],
    [Method (Name ''graduateProgram'') [] ''join'',
     Subscript (Name ''person'') [],
     Operation ''=='' (Some (Name ''person'')) (Some (Name ''graduateProgram'')),
     Subscript (Name ''graduateProgram'') [],
     Method (Name ''graduateProgram'') [''join''] ''show''],
    [Method (Name ''person'') [] ''join'',
     Subscript (Name ''person'') [],
     Operation ''=='' (Some (Name ''person'')) (Some (Name ''graduateProgram'')),
     Subscript (Name ''graduateProgram'') [],
     Method (Name ''person'') [''join''] ''show''],
    [Method (Name ''graduateProgram'') [] ''join'',
     Subscript (Name ''person'') [],
     Operation ''=='' (Some (Name ''person'')) (Some (Name ''graduateProgram'')),
     Subscript (Name ''graduateProgram'') [],
     Method (Name ''graduateProgram'') [''join''] ''show''],
    [Method (Name ''graduateProgram'') [] ''join'',
     Subscript (Name ''person'') [],
     Operation ''=='' (Some (Name ''person'')) (Some (Name ''graduateProgram'')),
     Subscript (Name ''graduateProgram'') [],
     Method (Name ''graduateProgram'') [''join''] ''show''],
    [Method (Name ''person'') [] ''crossJoin'',
     Method (Name ''person'') [''crossJoin''] ''show''],
    [Method (Name ''graduateProgram'') [] ''withColumnRenamed'',
     Method (Name ''person'') [] ''join'',
     Subscript (Name ''person'') [],
     Operation ''=='' (Some (Name ''person'')) (Some (Name ''gradProgramDupe'')),
     Subscript (Name ''gradProgramDupe'') [],
     Method (Name ''df'') [] ''show''],
    [Method (Name ''person'') [] ''join'',
     Method (Name ''person'') [''join''] ''show''],
    [Method (Name ''person'') [] ''join'',
     Subscript (Name ''person'') [],
     Operation ''=='' (Some (Name ''person'')) (Some (Name ''gradProgramDupe'')),
     Subscript (Name ''gradProgramDupe'') [],
     Method (Name ''person'') [''join''] ''drop'',
     Subscript (Name ''person'') [],
     Method (Name ''person'') [''join'', ''drop''] ''show''],
    [Method (Name ''graduateProgram'') [] ''withColumnRenamed'',
     Method (Name ''person'') [] ''join'',
     Subscript (Name ''person'') [],
     Operation ''=='' (Some (Name ''person'')) (Some (Name ''gradProgram3'')),
     Subscript (Name ''gradProgram3'') [],
     Method (Name ''person'') [''join''] ''show''],
    [Method (Name ''person'') [] ''join'',
     Subscript (Name ''person'') [],
     Operation ''=='' (Some (Name ''person'')) (Some (Name ''graduateProgram'')),
     Subscript (Name ''graduateProgram'') [],
     Method (Name ''person'') [''join''] ''explain''],
    [Method (Name ''person'') [] ''join'',
     Function ''broadcast'',
     Subscript (Name ''person'') [],
     Operation ''=='' (Some (Name ''person'')) (Some (Name ''graduateProgram'')),
     Subscript (Name ''graduateProgram'') [],
     Method (Name ''person'') [''join''] ''explain'']] \<and>
   engine_objects spark_sql_notebook = [''spark'', ''Cat''] \<and>
   engine_objects joins_notebook =
     [''spark'', ''person'', ''graduateProgram'', ''joinExpression'', ''gradProgramDupe'', ''df'',
      ''gradProgram3'', ''broadcast''] \<and>
   execution_counts
     (filter (leaves_engine (engine_objects spark_sql_notebook)) (code_cells spark_sql_notebook))
     = [2] \<and>
   filter (leaves_engine (engine_objects joins_notebook)) (code_cells joins_notebook) = []"
proof -
  have "filter defines_something (code_cells spark_sql_notebook) = []"
    by (simp add: code_cells_spark_sql defines_something_def definition_words_def
        cell_tokens_def cell_statements)
  moreover have "filter defines_something (code_cells joins_notebook) = []"
    by (simp add: code_cells_joins defines_something_def definition_words_def
        cell_tokens_def cell_statements)
  moreover have "\<not> list_ex (sql_mentions ''FUNCTION'') (code_cells spark_sql_notebook)"
    unfolding code_cells_spark_sql sql_mentions_def cell_tokens_def list_ex_Cons_iff list_ex_Nil_iff
      cell_statements
    by code_simp
  then have "filter (sql_mentions ''FUNCTION'') (code_cells spark_sql_notebook) = []"
    by (simp add: filter_empty_conv list_ex_iff)
  moreover have "\<not> list_ex (sql_mentions ''FUNCTION'') (code_cells joins_notebook)"
    unfolding code_cells_joins sql_mentions_def cell_tokens_def list_ex_Cons_iff list_ex_Nil_iff
      cell_statements
    by code_simp
  then have "filter (sql_mentions ''FUNCTION'') (code_cells joins_notebook) = []"
    by (simp add: filter_empty_conv list_ex_iff)
  moreover have "filter has_control_flow (code_cells spark_sql_notebook) = []"
    by (simp add: code_cells_spark_sql has_control_flow_def control_flow_words_def
        cell_tokens_def cell_statements)
  moreover have "filter has_control_flow (code_cells joins_notebook) = []"
    by (simp add: code_cells_joins has_control_flow_def control_flow_words_def
        cell_tokens_def cell_statements)
  moreover have "filter is_import (program spark_sql_notebook) = []"
    by (simp add: program_def code_cells_spark_sql cell_statements classify_def)
  moreover have "filter is_import (program joins_notebook) =
     [Import [''pyspark'', ''sql'', ''functions''] [''broadcast'']]"
    by (simp add: program_def code_cells_joins cell_statements classify_def)
  moreover have
    "filter (leaves_engine (engine_objects spark_sql_notebook)) (code_cells spark_sql_notebook)
       = [sql_in_2]"
    by (simp add: engine_objects_notebooks code_cells_spark_sql leaves_engine_def
        other_names_def python_constants_def classify_def invocations_def cell_statements)
  moreover have
    "filter (leaves_engine (engine_objects joins_notebook)) (code_cells joins_notebook) = []"
    by (simp add: engine_objects_notebooks code_cells_joins leaves_engine_def
        other_names_def python_constants_def classify_def invocations_def cell_statements)
  ultimately show ?thesis
    using session_spark_sql session_joins invocations_spark_sql invocations_joins
      engine_objects_notebooks
    by (simp only: cell_execution_counts simp_thms)
qed

subsection \<open>Errors\<close>



subsection \<open>Joins\<close>

text \<open>
  C4. For the two three-row datasets that the first cell of the joins notebook creates
  from literal rows (and shows), every transcribed join output is the join of its type on
  the key equality
  \<^verbatim>\<open>person.graduate_program = graduateProgram.id\<close>: the inner join (cells 4 and 5) has
  exactly the three matching rows; the full outer join (cell 6) is those three rows and one
  row for program 2, padded with nulls on the side of \<open>person\<close>; the left semi join on
  \<open>graduateProgram\<close> (cell 9) returns exactly the programs 0 and 1, the left anti join
  (cell 10) exactly program 2, and the cross join (cell 11) all nine pairs.
\<close>

theorem join_outputs_are_the_joins:
  "statements joins_in_1 =
     [createDataFrame_statement ''person'' person,
      createDataFrame_statement ''graduateProgram'' graduateProgram,
      method_call [Name ''person''] ''show'' [],
      method_call [Name ''graduateProgram''] ''show'' []] \<and>
   shown_tables joins_in_1 = [shown person, shown graduateProgram] \<and>
   statements joins_in_3 = [[Name ''joinExpression'', Op ''=''] @ key_equality] \<and>
   statements joins_in_4 =
     [method_call (method_call [Name ''person''] ''join''
        [Name ''graduateProgram'', Op '','', Name ''joinExpression'']) ''show'' []] \<and>
   shows_exactly joins_in_4 (join person graduateProgram joinExpression Inner) \<and>
   shows_join joins_in_5 ''person'' ''graduateProgram'' ''inner'' \<and>
   shows_join joins_in_6 ''person'' ''graduateProgram'' ''outer'' \<and>
   shows_join joins_in_9 ''graduateProgram'' ''person'' ''left_semi'' \<and>
   shows_join joins_in_10 ''graduateProgram'' ''person'' ''left_anti'' \<and>
   statements joins_in_11 =
     [method_call (method_call [Name ''person''] ''crossJoin'' [Name ''graduateProgram''])
        ''show'' []] \<and>
   shows_exactly joins_in_11 (crossJoin person graduateProgram) \<and>
   run_join ''person'' ''graduateProgram'' ''inner''
     = Some (join person graduateProgram joinExpression Inner) \<and>
   map (\<lambda>r. (col person ''id'' r, col graduateProgram ''id'' (drop 4 r)))
       (rows (join person graduateProgram joinExpression Inner))
     = [(IntV 0, IntV 0), (IntV 1, IntV 1), (IntV 2, IntV 1)] \<and>
   map_option rows (run_join ''person'' ''graduateProgram'' ''outer'')
     = Some (rows (join person graduateProgram joinExpression Inner)
       @ [[Null, Null, Null, Null, IntV 2, StrV ''Masters'', StrV ''EECS'', StrV ''UC Berkeley'']]) \<and>
   map_option (map (col graduateProgram ''id'') \<circ> rows)
       (run_join ''graduateProgram'' ''person'' ''left_semi'')
     = Some [IntV 0, IntV 1] \<and>
   map_option (map (col graduateProgram ''id'') \<circ> rows)
       (run_join ''graduateProgram'' ''person'' ''left_anti'')
     = Some [IntV 2] \<and>
   rows (crossJoin person graduateProgram)
     = concat (map (\<lambda>p. map (\<lambda>g. p @ g) (rows graduateProgram)) (rows person)) \<and>
   length (rows (crossJoin person graduateProgram)) = 9"
proof -
  have "map (\<lambda>r. (col person ''id'' r, col graduateProgram ''id'' (drop 4 r)))
       (rows (join person graduateProgram joinExpression Inner))
     = [(IntV 0, IntV 0), (IntV 1, IntV 1), (IntV 2, IntV 1)]"
    by code_simp
  moreover have "map_option rows (run_join ''person'' ''graduateProgram'' ''outer'')
     = Some (rows (join person graduateProgram joinExpression Inner)
       @ [[Null, Null, Null, Null, IntV 2, StrV ''Masters'', StrV ''EECS'', StrV ''UC Berkeley'']])"
    by code_simp
  moreover have "map_option (map (col graduateProgram ''id'') \<circ> rows)
       (run_join ''graduateProgram'' ''person'' ''left_semi'')
     = Some [IntV 0, IntV 1]"
    by code_simp
  moreover have "map_option (map (col graduateProgram ''id'') \<circ> rows)
       (run_join ''graduateProgram'' ''person'' ''left_anti'')
     = Some [IntV 2]"
    by code_simp
  moreover have "rows (crossJoin person graduateProgram)
     = concat (map (\<lambda>p. map (\<lambda>g. p @ g) (rows graduateProgram)) (rows person))"
    by (simp add: crossJoin_def cross_pairs_def)
  moreover have "length (rows (crossJoin person graduateProgram)) = 9"
    by code_simp
  ultimately show ?thesis
    using datasets_source datasets_shown inner_join_shown(1) shows_join_cells(1,2,5,6)
      cross_join_shown join_cells_source(1,8) run_join_cells(1)
    by (simp only: simp_thms)
qed

text \<open>
  C8. For these two datasets the right outer join of \<open>person\<close> with \<open>graduateProgram\<close>
  (cell 8) shows the same joined rows as the left outer join of \<open>graduateProgram\<close> with
  \<open>person\<close> (cell 7), with the two sides of every row exchanged: exchanging the four
  columns of one side with the four of the other turns each transcript into the other,
  header and rows. Both transcripts are the joins of their type.
\<close>

theorem right_outer_is_left_outer_with_sides_exchanged:
  "shows_join joins_in_7 ''graduateProgram'' ''person'' ''left_outer'' \<and>
   shows_join joins_in_8 ''person'' ''graduateProgram'' ''right_outer'' \<and>
   shown_tables joins_in_8 = map (swap_table 4) (shown_tables joins_in_7) \<and>
   shown_tables joins_in_7 = map (swap_table 4) (shown_tables joins_in_8) \<and>
   map (length \<circ> body) (shown_tables joins_in_7) = [4] \<and>
   map (length \<circ> body) (shown_tables joins_in_8) = [4]"
proof -
  have "shown_tables joins_in_8 = map (swap_table 4) (shown_tables joins_in_7)"
    "shown_tables joins_in_7 = map (swap_table 4) (shown_tables joins_in_8)"
    "map (length \<circ> body) (shown_tables joins_in_7) = [4]"
    "map (length \<circ> body) (shown_tables joins_in_8) = [4]"
    by code_simp+
  then show ?thesis
    using shows_join_cells(3,4) by (simp only: simp_thms)
qed

text \<open>
  C10. A cross join of two datasets has as many rows as the product of their numbers of
  rows: a thousand rows on each side give a million, and the transcribed cross join of the
  three rows of \<open>person\<close> with the three rows of \<open>graduateProgram\<close> (cell 11) has nine.
\<close>

theorem cross_join_cardinality:
  "length (rows (crossJoin a b)) = length (rows a) * length (rows b) \<and>
   length (rows (crossJoin \<lparr>columns = ca, rows = replicate 1000 x\<rparr>
                           \<lparr>columns = cb, rows = replicate 1000 y\<rparr>)) = 1000000 \<and>
   length (rows person) = 3 \<and> length (rows graduateProgram) = 3 \<and>
   statements joins_in_11 =
     [method_call (method_call [Name ''person''] ''crossJoin'' [Name ''graduateProgram''])
        ''show'' []] \<and>
   shows_exactly joins_in_11 (crossJoin person graduateProgram) \<and>
   map (length \<circ> body) (shown_tables joins_in_11) = [9]"
proof -
  have general: "length (rows (crossJoin a b)) = length (rows a) * length (rows b)" for a b
    by (simp add: crossJoin_def length_cross_pairs)
  have "length (rows person) = 3" "length (rows graduateProgram) = 3"
    "map (length \<circ> body) (shown_tables joins_in_11) = [9]"
    by code_simp+
  then show ?thesis
    using cross_join_shown join_cells_source(8) by (simp add: general)
qed

subsection \<open>Physical plans\<close>

text \<open>
  C7. The transcribed plans agree with the glossary. In the plan of the plain join
  (cell 16), a sort-merge join, each of the two inputs of the join is exchanged by hash
  partitioning on its join key and sorted on it, and nothing is broadcast. In the plan of
  the join with \<^verbatim>\<open>broadcast(graduateProgram)\<close> (cell 17), a broadcast hash join, one
  input, the right one, stands under a \<^verbatim>\<open>BroadcastExchange\<close>, and no operator of the plan
  is a hash-partitioning exchange.
\<close>

theorem plans_match_the_strategies:
  "statements joins_in_16 =
     [method_call (method_call [Name ''person''] ''join''
        ([Name ''graduateProgram'', Op '',''] @ key_equality)) ''explain'' []] \<and>
   root_operator (physical_plan joins_in_16) = ''SortMergeJoin'' \<and>
   join_keys (physical_plan joins_in_16) = [''graduate_program#10L'', ''id#24L''] \<and>
   map (map operator) (join_inputs (physical_plan joins_in_16)) =
     [[''Sort'', ''Exchange'', ''Project'', ''Filter'', ''Scan''],
      [''Sort'', ''Exchange'', ''Project'', ''Filter'', ''Scan'']] \<and>
   partitioned_and_sorted (join_keys (physical_plan joins_in_16))
     (join_inputs (physical_plan joins_in_16)) \<and>
   map description (filter is_shuffle (physical_plan joins_in_16)) =
     [''Exchange hashpartitioning(graduate_program#10L, 200)'',
      ''Exchange hashpartitioning(id#24L, 200)''] \<and>
   filter is_broadcast (physical_plan joins_in_16) = [] \<and>
   last (statements joins_in_17) =
     method_call (method_call [Name ''person''] ''join''
       (function_call ''broadcast'' [Name ''graduateProgram''] @ [Op '',''] @ key_equality))
       ''explain'' [] \<and>
   root_operator (physical_plan joins_in_17) = ''BroadcastHashJoin'' \<and>
   map (map operator) (join_inputs (physical_plan joins_in_17)) =
     [[''Project'', ''Filter'', ''Scan''],
      [''BroadcastExchange'', ''Project'', ''Filter'', ''Scan'']] \<and>
   map (list_ex is_broadcast) (join_inputs (physical_plan joins_in_17)) = [False, True] \<and>
   filter is_shuffle (physical_plan joins_in_17) = []"
proof -
  have "root_operator (physical_plan joins_in_16) = ''SortMergeJoin''"
    "join_keys (physical_plan joins_in_16) = [''graduate_program#10L'', ''id#24L'']"
    "map (map operator) (join_inputs (physical_plan joins_in_16)) =
       [[''Sort'', ''Exchange'', ''Project'', ''Filter'', ''Scan''],
        [''Sort'', ''Exchange'', ''Project'', ''Filter'', ''Scan'']]"
    "partitioned_and_sorted (join_keys (physical_plan joins_in_16))
       (join_inputs (physical_plan joins_in_16))"
    "map description (filter is_shuffle (physical_plan joins_in_16)) =
       [''Exchange hashpartitioning(graduate_program#10L, 200)'',
        ''Exchange hashpartitioning(id#24L, 200)'']"
    "filter is_broadcast (physical_plan joins_in_16) = []"
    by code_simp+
  moreover have "root_operator (physical_plan joins_in_17) = ''BroadcastHashJoin''"
    "map (map operator) (join_inputs (physical_plan joins_in_17)) =
       [[''Project'', ''Filter'', ''Scan''],
        [''BroadcastExchange'', ''Project'', ''Filter'', ''Scan'']]"
    "map (list_ex is_broadcast) (join_inputs (physical_plan joins_in_17)) = [False, True]"
    "filter is_shuffle (physical_plan joins_in_17) = []"
    by code_simp+
  moreover have "last (statements joins_in_17) =
     method_call (method_call [Name ''person''] ''join''
       (function_call ''broadcast'' [Name ''graduateProgram''] @ [Op '',''] @ key_equality))
       ''explain'' []"
    unfolding explain_cells_source by simp
  ultimately show ?thesis
    using explain_cells_source(1) by (simp only: simp_thms)
qed

subsection \<open>The cheat sheet\<close>

text \<open>
  C9 does not hold of the cheat sheet. The one-liner has the flags of the multi-line
  command, in the same order, and the same positional words, but not the same values:
  the multi-line command asks for image version 1.3, the one-liner for 1.4. Every other
  flag has the same value in both.
\<close>

theorem create_commands_differ_in_image_version:
  "flags create_cluster \<noteq> flags create_cluster_one_liner \<and>
   map fst (flags create_cluster) = map fst (flags create_cluster_one_liner) \<and>
   positionals create_cluster = positionals create_cluster_one_liner \<and>
   map_of (flags create_cluster) ''--image-version'' = Some (Some ''1.3'') \<and>
   map_of (flags create_cluster_one_liner) ''--image-version'' = Some (Some ''1.4'') \<and>
   filter (\<lambda>f. fst f \<noteq> ''--image-version'') (flags create_cluster) =
     filter (\<lambda>f. fst f \<noteq> ''--image-version'') (flags create_cluster_one_liner)"
  unfolding create_cluster_words by code_simp


end
